theory Spec2Isabelle
  imports Main "HOL-Library.Word" "HOL-Library.RBT"
begin

section \<open>Common types\<close>

text \<open>
  \<^verbatim>\<open>TxnTimeStamp\<close> and \<^verbatim>\<open>TransactionID\<close> are unsigned 64-bit counters.
  Sizes are words of their width: an \<^verbatim>\<open>i32\<close> or \<^verbatim>\<open>i64\<close> is read with \<open>sint\<close>,
  a \<^verbatim>\<open>u64\<close> with \<open>uint\<close>.
\<close>

type_synonym TxnTimeStamp = "64 word"
type_synonym TransactionID = "64 word"
type_synonym byte = "8 word"
type_synonym SegmentID = nat

text \<open>
  Modelled from the spec: \<^verbatim>\<open>UNCOMMIT_TS\<close> is declared outside the sources at
  hand. "The sentinel UNCOMMITTED denotes not-yet-committed"; it is taken to be the
  largest 64-bit value, which no commit reaches.
\<close>

definition UNCOMMIT_TS :: TxnTimeStamp where
  "UNCOMMIT_TS = - 1"

text \<open>
  \<^verbatim>\<open>UnrecoverableError\<close> and \<^verbatim>\<open>RecoverableError\<close> raise the two exceptions of the
  code base. \<open>Fault\<close> stands for the failures of the language itself that the code
  does not guard against: a null pointer dereferenced, \<^verbatim>\<open>at\<close> on a missing key.
\<close>

datatype error = UnrecoverableError string | RecoverableError string | Fault string

section \<open>WAL commands and entries\<close>

record WalBlockInfo =
  bi_row_count :: nat
  bi_row_capacity :: nat
  bi_outline_infos :: "(nat \<times> nat) list"

record WalSegmentInfo =
  si_segment_id :: SegmentID
  si_column_count :: nat
  si_row_count :: nat
  si_actual_row_count :: nat
  si_row_capacity :: nat
  si_block_infos :: "WalBlockInfo list"

record WalCmdCheckpoint =
  ckp_max_commit_ts :: TxnTimeStamp
  ckp_is_full_checkpoint :: bool
  ckp_catalog_path :: string

datatype WalCmd =
    CREATE_DATABASE string string
  | DROP_DATABASE string
  | CREATE_TABLE string string string
  | DROP_TABLE string string
  | ALTER_INFO
  | CREATE_INDEX string string string string
  | DROP_INDEX string string string
  | IMPORT string string WalSegmentInfo
  | APPEND string string "byte list"
  | DELETE_ROWS string string "nat list"
  | CHECKPOINT WalCmdCheckpoint
  | COMPACT string string "WalSegmentInfo list" "SegmentID list"

record WalEntry =
  txn_id :: TransactionID
  commit_ts :: TxnTimeStamp
  cmds :: "WalCmd list"

section \<open>The WAL manager\<close>

datatype FlushOption = kFlushAtOnce | kOnlyWrite | kFlushPerSecond

text \<open>
  What the flush thread does to the outside world, in the order it does it: the trace
  is ghost state, appended to by each modelled call.
\<close>

datatype wal_event =
    WriteEv WalEntry
  | FlushEv
  | CommitBottomEv TransactionID
  | SwapWalFileEv TxnTimeStamp
  | SubmitCheckpointEv bool

datatype CatalogFileKind = FULL | DELTA

text \<open>
  The files under \<^verbatim>\<open>wal_dir\<close> and \<^verbatim>\<open>catalog_dir\<close>: the active
  \<^verbatim>\<open>wal.log\<close>, the rolled \<^verbatim>\<open>wal.log.<max_commit_ts>\<close> files and the catalog files.
\<close>

record Disk =
  wal_log :: "byte list"
  wal_rolled :: "(TxnTimeStamp \<times> byte list) list"
  catalog_files :: "(CatalogFileKind \<times> TxnTimeStamp) list"

text \<open>Where the flush thread is: not created yet, at the test of the \<^verbatim>\<open>while\<close> loop, waiting in \<^verbatim>\<open>DequeueBulk\<close>, or past the loop.\<close>

datatype flush_pc = NotStarted | AtLoopHead | AtDequeue | Ended

text \<open>
  The fields of \<^verbatim>\<open>WalManager\<close> (a field \<^verbatim>\<open>f_\<close> of the source is \<open>f\<close>
  here, throughout). \<open>ofs_pending\<close> holds the bytes given to
  \<^verbatim>\<open>ofs_.write\<close> and not flushed yet; \<open>txns\<close> lists the transactions that
  \<^verbatim>\<open>TxnManager::GetTxn\<close> finds. \<^verbatim>\<open>wal_size_\<close> and \<^verbatim>\<open>last_ckp_wal_size_\<close> are
  \<^verbatim>\<open>i64\<close>, the two configured sizes are \<^verbatim>\<open>u64\<close>.
\<close>

record WalManager =
  running :: bool
  blocking_queue :: "(WalEntry option \<times> TransactionID option) list"
  ofs_pending :: "byte list"
  disk :: Disk
  max_commit_ts :: TxnTimeStamp
  wal_size :: "64 word"
  last_ckp_wal_size :: "64 word"
  checkpoint_in_progress :: bool
  last_ckp_ts :: TxnTimeStamp
  last_full_ckp_ts :: TxnTimeStamp
  cfg_wal_size_threshold :: "64 word"
  cfg_delta_checkpoint_interval_wal_bytes :: "64 word"
  flush_option :: FlushOption
  flush_thread :: flush_pc
  txns :: "TransactionID list"
  trace :: "wal_event list"

subsection \<open>The blocking queue and PutEntry\<close>

text \<open>
  Modelled from the spec: the queue class is defined outside the sources at hand. "A
  single blocking queue accepts \<^verbatim>\<open>(WalEntry, Txn)\<close> pairs. A dedicated flush thread
  dequeues a batch": \<^verbatim>\<open>Enqueue\<close> puts a pair at the end, \<^verbatim>\<open>DequeueBulk\<close> waits
  while the queue is empty and then takes the entries of all pairs, in order.
\<close>

definition Enqueue :: "WalEntry option \<Rightarrow> TransactionID option \<Rightarrow> WalManager \<Rightarrow> WalManager" where
  "Enqueue entry txn s = s\<lparr>blocking_queue := blocking_queue s @ [(entry, txn)]\<rparr>"

definition DequeueBulk :: "WalManager \<Rightarrow> WalEntry option list \<times> WalManager" where
  "DequeueBulk s = (map fst (blocking_queue s), s\<lparr>blocking_queue := []\<rparr>)"

text \<open>
  \<^verbatim>\<open>void WalManager::PutEntry(WalEntry *entry, Txn *txn)\<close>: returns at once when
  \<^verbatim>\<open>running_\<close> is false, enqueues the pair otherwise. The function is
  \<^verbatim>\<open>void\<close> and raises nothing, so the new state is all it yields.
\<close>

definition PutEntry :: "WalEntry \<Rightarrow> TransactionID \<Rightarrow> WalManager \<Rightarrow> WalManager" where
  "PutEntry entry txn s =
     (if \<not> running s then s
      else Enqueue (Some entry) (Some txn) s)"

subsection \<open>Flush\<close>

text \<open>
  \<^verbatim>\<open>WalEntry::GetSizeInBytes\<close> and \<^verbatim>\<open>WalEntry::WriteAdv\<close> are defined outside
  the sources at hand: they are the parameters \<open>GetSizeInBytes\<close> (the predicted
  size, which the source keeps in an \<^verbatim>\<open>i32\<close>) and \<open>WriteAdv\<close> (the bytes that
  serialization writes through the pointer it is given) of the functions below.

  An error carries the state the manager is in when it is raised.
\<close>

type_synonym 'a result = "(error \<times> WalManager) + 'a"

text \<open>\<^verbatim>\<open>ofs_.write(buf.data(), ptr - buf.data())\<close>\<close>

definition ofs_write :: "WalEntry \<Rightarrow> byte list \<Rightarrow> WalManager \<Rightarrow> WalManager" where
  "ofs_write entry buf s =
     s\<lparr>ofs_pending := ofs_pending s @ buf, trace := trace s @ [WriteEv entry]\<rparr>"

text \<open>\<^verbatim>\<open>ofs_.flush()\<close>: the pending bytes reach \<^verbatim>\<open>wal.log\<close>.\<close>

definition ofs_flush :: "WalManager \<Rightarrow> WalManager" where
  "ofs_flush s =
     s\<lparr>disk := (disk s)\<lparr>wal_log := wal_log (disk s) @ ofs_pending s\<rparr>,
       ofs_pending := [],
       trace := trace s @ [FlushEv]\<rparr>"

text \<open>
  The first \<^verbatim>\<open>for\<close> loop of \<^verbatim>\<open>Flush\<close> over \<^verbatim>\<open>log_batch\<close>; \<open>None\<close> is the
  \<^verbatim>\<open>nullptr\<close> that \<^verbatim>\<open>Stop\<close> enqueues. For an entry the statements are, in this
  order:
  \<^item> \<^verbatim>\<open>i32 exp_size = entry->GetSizeInBytes(); Vector<char> buf(exp_size);\<close> The
    size of a vector is unsigned, so a negative \<open>exp_size\<close> asks for more than a
    vector can hold and the constructor throws \<^verbatim>\<open>std::length_error\<close>.
  \<^item> \<^verbatim>\<open>char *ptr = buf.data(); entry->WriteAdv(ptr);\<close> Serialization writes into
    the \<open>exp_size\<close> bytes of \<open>buf\<close>. When it produces more bytes than that it writes
    past the end of the buffer; the language leaves open what happens then, and the
    model stops with a \<open>Fault\<close>.
  \<^item> \<^verbatim>\<open>i32 act_size = ptr - buf.data();\<close> then the comparison with \<open>exp_size\<close>, the
    \<^verbatim>\<open>UnrecoverableError\<close> when they differ, and \<^verbatim>\<open>ofs_.write\<close>.
  \<^item> \<^verbatim>\<open>wal_size_ += act_size\<close>, an \<^verbatim>\<open>i64\<close> to which the \<^verbatim>\<open>i32\<close> is added.
\<close>

fun Flush_write ::
  "(WalEntry \<Rightarrow> 32 word) \<Rightarrow> (WalEntry \<Rightarrow> byte list) \<Rightarrow> WalEntry option list \<Rightarrow> WalManager
     \<Rightarrow> WalManager result" where
  "Flush_write GetSizeInBytes WriteAdv [] s = Inr s"
| "Flush_write GetSizeInBytes WriteAdv (None # rest) s = Inr (s\<lparr>running := False\<rparr>)"
| "Flush_write GetSizeInBytes WriteAdv (Some entry # rest) s =
     (if cmds entry = [] then
        Inl (UnrecoverableError ''WalEntry commands is empty'', s)
      else
        let exp_size = GetSizeInBytes entry
        in if sint exp_size < 0 then
             Inl (Fault ''std::length_error'', s)
           else
             let buf = WriteAdv entry
             in if int (length buf) > sint exp_size then
                  Inl (Fault ''write past the end of buf'', s)
                else
                  let act_size = (word_of_nat (length buf) :: 32 word)
                  in if exp_size \<noteq> act_size then
                       Inl (UnrecoverableError
                              ''WalManager::Flush WalEntry estimated size differ with the actual one'', s)
                     else
                       Flush_write GetSizeInBytes WriteAdv rest
                         ((ofs_write entry buf s)
                            \<lparr>max_commit_ts := commit_ts entry,
                              wal_size := wal_size s + scast act_size\<rparr>))"

text \<open>The \<^verbatim>\<open>switch (flush_option_)\<close>: every case calls \<^verbatim>\<open>ofs_.flush()\<close>.\<close>

definition Flush_sync :: "WalManager \<Rightarrow> WalManager" where
  "Flush_sync s =
     (case flush_option s of
        kFlushAtOnce \<Rightarrow> ofs_flush s
      | kOnlyWrite \<Rightarrow> ofs_flush s
      | kFlushPerSecond \<Rightarrow> ofs_flush s)"

text \<open>
  The second loop: \<^verbatim>\<open>GetTxn\<close>, then \<^verbatim>\<open>CommitBottom\<close> when the transaction is
  found. The loop reads \<^verbatim>\<open>entry->txn_id_\<close> of every element; on a \<^verbatim>\<open>nullptr\<close>
  that is a null dereference, which the model makes an error.
\<close>

fun Flush_commit :: "WalEntry option list \<Rightarrow> WalManager \<Rightarrow> WalManager result" where
  "Flush_commit [] s = Inr s"
| "Flush_commit (None # rest) s = Inl (Fault ''null dereference'', s)"
| "Flush_commit (Some entry # rest) s =
     Flush_commit rest
       (if txn_id entry \<in> set (txns s)
        then s\<lparr>trace := trace s @ [CommitBottomEv (txn_id entry)]\<rparr>
        else s)"

text \<open>
  \<^verbatim>\<open>SwapWalFile\<close>: close the stream, rename \<^verbatim>\<open>wal.log\<close> to
  \<^verbatim>\<open>wal.log.<max_commit_ts>\<close>, open an empty \<^verbatim>\<open>wal.log\<close>. File-system calls are
  taken to succeed.
\<close>

definition SwapWalFile :: "TxnTimeStamp \<Rightarrow> WalManager \<Rightarrow> WalManager" where
  "SwapWalFile ts s =
     (let closed = wal_log (disk s) @ ofs_pending s
      in s\<lparr>disk := (disk s)\<lparr>wal_log := [],
                               wal_rolled := (ts, closed) # filter (\<lambda>f. fst f \<noteq> ts) (wal_rolled (disk s))\<rparr>,
            ofs_pending := [],
            trace := trace s @ [SwapWalFileEv ts]\<rparr>)"

definition TrySubmitCheckpointTask :: "bool \<Rightarrow> WalManager \<Rightarrow> bool \<times> WalManager" where
  "TrySubmitCheckpointTask is_full s =
     (if \<not> checkpoint_in_progress s
      then (True, s\<lparr>checkpoint_in_progress := True, trace := trace s @ [SubmitCheckpointEv is_full]\<rparr>)
      else (False, s))"

text \<open>
  The end of the loop body: rotation of the log file, then the size trigger of a
  delta checkpoint. The size of the file is compared with the \<^verbatim>\<open>u64\<close> threshold as
  it is. The trigger is \<^verbatim>\<open>wal_size_ - last_ckp_wal_size > i64(cfg_..._bytes_)\<close>: a
  difference of two \<^verbatim>\<open>i64\<close> against the \<^verbatim>\<open>u64\<close> interval read as \<^verbatim>\<open>i64\<close>, so
  that an interval of \<open>2 ^ 63\<close> or more counts as negative.
\<close>

definition Flush_rotate :: "WalManager \<Rightarrow> WalManager" where
  "Flush_rotate s =
     (let file_size = int (length (wal_log (disk s)))
      in if file_size > uint (cfg_wal_size_threshold s) then SwapWalFile (max_commit_ts s) s else s)"

definition Flush_trigger :: "WalManager \<Rightarrow> WalManager" where
  "Flush_trigger s =
     (if sint (wal_size s - last_ckp_wal_size s) > sint (cfg_delta_checkpoint_interval_wal_bytes s)
      then snd (TrySubmitCheckpointTask False s)
      else s)"

text \<open>
  One turn of the \<^verbatim>\<open>while (running_.load())\<close> loop, on the batch that
  \<^verbatim>\<open>DequeueBulk\<close> delivered.
\<close>

definition Flush_batch ::
  "(WalEntry \<Rightarrow> 32 word) \<Rightarrow> (WalEntry \<Rightarrow> byte list) \<Rightarrow> WalEntry option list \<Rightarrow> WalManager
     \<Rightarrow> WalManager result" where
  "Flush_batch GetSizeInBytes WriteAdv log_batch s =
     (if log_batch = [] then Inr s
      else
        case Flush_write GetSizeInBytes WriteAdv log_batch s of
          Inl e \<Rightarrow> Inl e
        | Inr s1 \<Rightarrow>
            if \<not> running s1 then Inr s1
            else
              (case Flush_commit log_batch (Flush_sync s1) of
                 Inl e \<Rightarrow> Inl e
               | Inr s2 \<Rightarrow> Inr (Flush_trigger (Flush_rotate s2))))"

text \<open>
  The flush thread, one step at a time, so that calls of other threads can come
  between its steps. At the head of the loop it tests \<^verbatim>\<open>running_\<close> and goes on to
  \<^verbatim>\<open>DequeueBulk\<close> or leaves the loop. In \<^verbatim>\<open>DequeueBulk\<close> it waits while the queue
  is empty; else it takes the batch and runs the body of the loop on it. The body
  leaves the loop by \<^verbatim>\<open>break\<close> exactly when it finds \<^verbatim>\<open>running_\<close> false behind
  the write loop, and it does not set \<^verbatim>\<open>running_\<close> after that, so the thread goes
  back to the head of the loop when \<^verbatim>\<open>running_\<close> is true at the end of the body and
  has ended otherwise.
\<close>

definition Flush_step ::
  "(WalEntry \<Rightarrow> 32 word) \<Rightarrow> (WalEntry \<Rightarrow> byte list) \<Rightarrow> WalManager \<Rightarrow> WalManager result" where
  "Flush_step GetSizeInBytes WriteAdv s =
     (case flush_thread s of
        NotStarted \<Rightarrow> Inr s
      | Ended \<Rightarrow> Inr s
      | AtLoopHead \<Rightarrow> Inr (s\<lparr>flush_thread := (if running s then AtDequeue else Ended)\<rparr>)
      | AtDequeue \<Rightarrow>
          if blocking_queue s = [] then Inr s
          else
            (case DequeueBulk s of
               (log_batch, s1) \<Rightarrow>
                 (case Flush_batch GetSizeInBytes WriteAdv log_batch s1 of
                    Inl e \<Rightarrow> Inl e
                  | Inr s2 \<Rightarrow>
                      Inr (s2\<lparr>flush_thread := (if running s2 then AtLoopHead else Ended)\<rparr>))))"

subsection \<open>Start and Stop\<close>

text \<open>\<^verbatim>\<open>ofs_.close()\<close>, also what assigning a new stream to \<^verbatim>\<open>ofs_\<close> does to the old one.\<close>

definition ofs_close :: "WalManager \<Rightarrow> WalManager" where
  "ofs_close s =
     s\<lparr>disk := (disk s)\<lparr>wal_log := wal_log (disk s) @ ofs_pending s\<rparr>, ofs_pending := []\<rparr>"

text \<open>
  \<^verbatim>\<open>Start\<close>: nothing when \<^verbatim>\<open>running_\<close> is true already; else \<^verbatim>\<open>running_\<close>
  becomes true, \<^verbatim>\<open>wal.log\<close> is opened for appending, \<^verbatim>\<open>wal_size_\<close> is set to 0 and
  the flush thread is created.
\<close>

definition Start :: "WalManager \<Rightarrow> WalManager" where
  "Start s =
     (if running s then s
      else (ofs_close s)\<lparr>running := True, wal_size := 0, flush_thread := AtLoopHead\<rparr>)"

text \<open>
  \<^verbatim>\<open>Stop\<close> up to \<^verbatim>\<open>flush_thread_.join()\<close>: nothing when \<^verbatim>\<open>running_\<close> is false
  already; else \<^verbatim>\<open>running_\<close> becomes false and the terminate entry is enqueued
  (stopping the transaction manager is outside this model). Then the caller waits for
  the flush thread; \<open>Stop_join\<close> is what it does once the thread has ended.
\<close>

definition Stop_begin :: "WalManager \<Rightarrow> WalManager" where
  "Stop_begin s =
     (if \<not> running s then s
      else Enqueue None None (s\<lparr>running := False\<rparr>))"

definition Stop_join :: "WalManager \<Rightarrow> WalManager" where
  "Stop_join s = (if flush_thread s = Ended then ofs_close s else s)"

subsection \<open>Runs of the manager\<close>

text \<open>
  What happens to a manager, as a sequence of calls from other threads and of steps of
  its flush thread. A run stops at the first error.
\<close>

datatype wal_action =
    CallStart
  | CallPutEntry WalEntry TransactionID
  | CallStopBegin
  | CallStopJoin
  | FlushStep

fun step ::
  "(WalEntry \<Rightarrow> 32 word) \<Rightarrow> (WalEntry \<Rightarrow> byte list) \<Rightarrow> wal_action \<Rightarrow> WalManager
     \<Rightarrow> WalManager result" where
  "step GetSizeInBytes WriteAdv CallStart s = Inr (Start s)"
| "step GetSizeInBytes WriteAdv (CallPutEntry entry txn) s = Inr (PutEntry entry txn s)"
| "step GetSizeInBytes WriteAdv CallStopBegin s = Inr (Stop_begin s)"
| "step GetSizeInBytes WriteAdv CallStopJoin s = Inr (Stop_join s)"
| "step GetSizeInBytes WriteAdv FlushStep s = Flush_step GetSizeInBytes WriteAdv s"

fun run ::
  "(WalEntry \<Rightarrow> 32 word) \<Rightarrow> (WalEntry \<Rightarrow> byte list) \<Rightarrow> wal_action list \<Rightarrow> WalManager
     \<Rightarrow> WalManager result" where
  "run GetSizeInBytes WriteAdv [] s = Inr s"
| "run GetSizeInBytes WriteAdv (a # acts) s =
     (case step GetSizeInBytes WriteAdv a s of
        Inl e \<Rightarrow> Inl e
      | Inr s' \<Rightarrow> run GetSizeInBytes WriteAdv acts s')"

text \<open>The manager at the end of a run, whether it ended in an error or not.\<close>

fun state_of :: "WalManager result \<Rightarrow> WalManager" where
  "state_of (Inl (e, s)) = s"
| "state_of (Inr s) = s"

text \<open>The entries that were handed to \<^verbatim>\<open>ofs_.write\<close> so far, and the entries that wait in the queue.\<close>

definition written :: "WalManager \<Rightarrow> WalEntry set" where
  "written s = {x. WriteEv x \<in> set (trace s)}"

definition queued :: "WalManager \<Rightarrow> WalEntry set" where
  "queued s = {x. Some x \<in> fst ` set (blocking_queue s)}"

text \<open>
  The entries of a batch that the first loop reaches: those ahead of the first
  \<^verbatim>\<open>nullptr\<close>, at which the loop breaks.
\<close>

fun processed :: "WalEntry option list \<Rightarrow> WalEntry list" where
  "processed [] = []"
| "processed (None # rest) = []"
| "processed (Some entry # rest) = entry # processed rest"

subsection \<open>CheckpointInner\<close>

text \<open>
  \<^verbatim>\<open>Txn::Checkpoint\<close> is defined outside the sources at hand. It is the parameter
  \<open>txn_Checkpoint\<close>: given the target timestamp, the kind and the files it finds, it
  answers how the call ended and what the files are afterwards.
\<close>

datatype CheckpointOutcome =
    CkpDone
  | CkpNotDone
  | CkpRecoverable string
  | CkpUnrecoverable string

text \<open>
  Modelled from the spec: \<^verbatim>\<open>WalFile::RecycleWalFile\<close> and
  \<^verbatim>\<open>CatalogFile::RecycleCatalogFile\<close> are defined outside the sources at hand. They
  remove the obsolete rolled log files, and the obsolete catalog files, "those with
  \<^verbatim>\<open>max_commit_ts \<le> new_ckp_ts\<close>".
\<close>

definition RecycleWalFile :: "TxnTimeStamp \<Rightarrow> Disk \<Rightarrow> Disk" where
  "RecycleWalFile ts d = d\<lparr>wal_rolled := filter (\<lambda>f. \<not> fst f \<le> ts) (wal_rolled d)\<rparr>"

definition RecycleCatalogFile :: "TxnTimeStamp \<Rightarrow> Disk \<Rightarrow> Disk" where
  "RecycleCatalogFile ts d = d\<lparr>catalog_files := filter (\<lambda>f. \<not> snd f \<le> ts) (catalog_files d)\<rparr>"

text \<open>The statements of \<^verbatim>\<open>CheckpointInner\<close> after the \<^verbatim>\<open>try\<close> block.\<close>

definition Checkpoint_finish :: "bool \<Rightarrow> TxnTimeStamp \<Rightarrow> WalManager \<Rightarrow> WalManager" where
  "Checkpoint_finish is_full_checkpoint ts s =
     (let s1 = s\<lparr>last_ckp_ts := ts\<rparr>;
          s2 = s1\<lparr>disk := RecycleWalFile ts (disk s1)\<rparr>
      in if is_full_checkpoint
         then (s2\<lparr>last_full_ckp_ts := ts\<rparr>)\<lparr>disk := RecycleCatalogFile ts (disk s2)\<rparr>
         else s2)"

text \<open>
  The \<^verbatim>\<open>try\<close> block: \<^verbatim>\<open>Txn::Checkpoint\<close> returning false leaves the function; a
  recoverable exception is caught and logged, and control goes on behind the block;
  an unrecoverable one is thrown on.
\<close>

definition Checkpoint_try ::
  "(TxnTimeStamp \<Rightarrow> bool \<Rightarrow> Disk \<Rightarrow> CheckpointOutcome \<times> Disk) \<Rightarrow> bool \<Rightarrow> TxnTimeStamp \<Rightarrow> 64 word
     \<Rightarrow> WalManager \<Rightarrow> WalManager result" where
  "Checkpoint_try txn_Checkpoint is_full_checkpoint ts wal_sz s =
     (case txn_Checkpoint ts is_full_checkpoint (disk s) of
        (CkpNotDone, d) \<Rightarrow> Inr (s\<lparr>disk := d\<rparr>)
      | (CkpDone, d) \<Rightarrow>
          Inr (Checkpoint_finish is_full_checkpoint ts (s\<lparr>disk := d, last_ckp_wal_size := wal_sz\<rparr>))
      | (CkpRecoverable msg, d) \<Rightarrow>
          Inr (Checkpoint_finish is_full_checkpoint ts (s\<lparr>disk := d\<rparr>))
      | (CkpUnrecoverable msg, d) \<Rightarrow>
          Inl (UnrecoverableError msg, s\<lparr>disk := d\<rparr>))"

text \<open>
  The checks ahead of the \<^verbatim>\<open>try\<close> block. \<open>None\<close>: go on to the checkpoint;
  \<open>Some (Inr ())\<close>: the early \<^verbatim>\<open>return\<close> of a skipped checkpoint;
  \<open>Some (Inl e)\<close>: \<^verbatim>\<open>UnrecoverableError\<close>.
\<close>

definition Checkpoint_guard :: "bool \<Rightarrow> TxnTimeStamp \<Rightarrow> WalManager \<Rightarrow> (error + unit) option" where
  "Checkpoint_guard is_full_checkpoint ts s =
     (if is_full_checkpoint then
        if ts = last_full_ckp_ts s then Some (Inr ())
        else if last_full_ckp_ts s \<noteq> UNCOMMIT_TS \<and> last_full_ckp_ts s \<ge> ts then
          Some (Inl (UnrecoverableError
                  ''WalManager::UpdateLastFullMaxCommitTS last_full_ckp_ts_ >= max_commit_ts''))
        else if last_ckp_ts s \<noteq> UNCOMMIT_TS \<and> last_ckp_ts s > ts then
          Some (Inl (UnrecoverableError
                  ''WalManager::UpdateLastFullMaxCommitTS last_ckp_ts_ >= max_commit_ts''))
        else None
      else
        if ts = last_ckp_ts s then Some (Inr ())
        else if last_ckp_ts s \<ge> ts then
          Some (Inl (UnrecoverableError
                  ''WalManager::UpdateLastMaxCommitTS last_ckp_ts_ >= max_commit_ts''))
        else None)"

text \<open>
  \<^verbatim>\<open>CheckpointInner\<close>. The \<^verbatim>\<open>DeferFn\<close> clears \<^verbatim>\<open>checkpoint_in_progress_\<close> on
  every way out, also when an exception unwinds the frame.
\<close>

definition CheckpointInner ::
  "(TxnTimeStamp \<Rightarrow> bool \<Rightarrow> Disk \<Rightarrow> CheckpointOutcome \<times> Disk) \<Rightarrow> bool \<Rightarrow> TxnTimeStamp \<Rightarrow> 64 word
     \<Rightarrow> WalManager \<Rightarrow> WalManager result" where
  "CheckpointInner txn_Checkpoint is_full_checkpoint ts wal_sz s =
     (let defer = (\<lambda>s'. s'\<lparr>checkpoint_in_progress := False\<rparr>)
      in case Checkpoint_guard is_full_checkpoint ts s of
           Some (Inr u) \<Rightarrow> Inr (defer s)
         | Some (Inl e) \<Rightarrow> Inl (e, defer s)
         | None \<Rightarrow>
             (case Checkpoint_try txn_Checkpoint is_full_checkpoint ts wal_sz s of
                Inl (e, s') \<Rightarrow> Inl (e, defer s')
              | Inr s' \<Rightarrow> Inr (defer s')))"

section \<open>Recovery\<close>

subsection \<open>Catalog entries rebuilt by replay\<close>

datatype SegmentStatus = kUnsealed | kSealed | kCompacting | kNoDelete | kDeprecated

record BlockColumnEntry =
  bc_column_id :: nat
  bc_next_outline_idx :: nat
  bc_last_chunk_offset :: nat
  bc_commit_ts :: TxnTimeStamp

record BlockEntry =
  be_block_id :: nat
  be_row_count :: nat
  be_row_capacity :: nat
  be_min_row_ts :: TxnTimeStamp
  be_max_row_ts :: TxnTimeStamp
  be_commit_ts :: TxnTimeStamp
  be_checkpoint_ts :: TxnTimeStamp
  be_checkpoint_row_count :: nat
  be_columns :: "nat \<rightharpoonup> BlockColumnEntry"

record SegmentEntry =
  se_segment_id :: SegmentID
  se_status :: SegmentStatus
  se_column_count :: nat
  se_row_count :: nat
  se_actual_row_count :: nat
  se_row_capacity :: nat
  se_min_row_ts :: TxnTimeStamp
  se_max_row_ts :: TxnTimeStamp
  se_commit_ts :: TxnTimeStamp
  se_deprecate_ts :: TxnTimeStamp
  se_begin_ts :: TxnTimeStamp
  se_txn_id :: TransactionID
  se_block_entries :: "nat \<rightharpoonup> BlockEntry"

record TableEntry =
  te_segment_map :: "SegmentID \<rightharpoonup> SegmentEntry"

text \<open>The tables that \<^verbatim>\<open>Catalog::GetTableByName\<close> finds, by database and table name.\<close>

type_synonym Catalog = "string \<times> string \<rightharpoonup> TableEntry"

text \<open>
  Modelled from the spec: the constructors \<^verbatim>\<open>SegmentEntry::NewReplaySegmentEntry\<close>,
  \<^verbatim>\<open>BlockEntry::NewReplayBlockEntry\<close> and
  \<^verbatim>\<open>BlockColumnEntry::NewReplayBlockColumnEntry\<close> are defined outside the sources at
  hand. Each builds an entry that holds its arguments, in the fields the comments at
  the call sites name, with no blocks (or columns) yet.
\<close>

definition NewReplaySegmentEntry ::
  "SegmentID \<Rightarrow> SegmentStatus \<Rightarrow> nat \<Rightarrow> nat \<Rightarrow> nat \<Rightarrow> nat \<Rightarrow> TxnTimeStamp \<Rightarrow> TxnTimeStamp
     \<Rightarrow> TxnTimeStamp \<Rightarrow> TxnTimeStamp \<Rightarrow> TxnTimeStamp \<Rightarrow> TransactionID \<Rightarrow> SegmentEntry" where
  "NewReplaySegmentEntry segment_id status column_count row_count actual_row_count row_capacity
       min_row_ts max_row_ts commit_timestamp deprecate_ts begin_ts txn =
     \<lparr>se_segment_id = segment_id, se_status = status, se_column_count = column_count,
      se_row_count = row_count, se_actual_row_count = actual_row_count,
      se_row_capacity = row_capacity, se_min_row_ts = min_row_ts, se_max_row_ts = max_row_ts,
      se_commit_ts = commit_timestamp, se_deprecate_ts = deprecate_ts, se_begin_ts = begin_ts,
      se_txn_id = txn, se_block_entries = Map.empty\<rparr>"

definition NewReplayBlockEntry ::
  "nat \<Rightarrow> nat \<Rightarrow> nat \<Rightarrow> TxnTimeStamp \<Rightarrow> TxnTimeStamp \<Rightarrow> TxnTimeStamp \<Rightarrow> TxnTimeStamp \<Rightarrow> nat
     \<Rightarrow> BlockEntry" where
  "NewReplayBlockEntry block_id row_count row_capacity min_row_ts max_row_ts commit_timestamp
       checkpoint_ts checkpoint_row_count =
     \<lparr>be_block_id = block_id, be_row_count = row_count, be_row_capacity = row_capacity,
      be_min_row_ts = min_row_ts, be_max_row_ts = max_row_ts, be_commit_ts = commit_timestamp,
      be_checkpoint_ts = checkpoint_ts, be_checkpoint_row_count = checkpoint_row_count,
      be_columns = Map.empty\<rparr>"

definition NewReplayBlockColumnEntry :: "nat \<Rightarrow> nat \<Rightarrow> nat \<Rightarrow> TxnTimeStamp \<Rightarrow> BlockColumnEntry" where
  "NewReplayBlockColumnEntry column_id next_idx last_off commit_timestamp =
     \<lparr>bc_column_id = column_id, bc_next_outline_idx = next_idx,
      bc_last_chunk_offset = last_off, bc_commit_ts = commit_timestamp\<rparr>"

text \<open>
  Modelled from the spec: \<^verbatim>\<open>BlockEntry::AddColumnReplay\<close>,
  \<^verbatim>\<open>SegmentEntry::AddBlockReplay\<close> and \<^verbatim>\<open>TableEntry::AddSegmentReplayWalImport\<close>,
  \<^verbatim>\<open>AddSegmentReplayWalCompact\<close> are defined outside the sources at hand. Each
  installs the entry in its parent under the id given.
\<close>

definition AddColumnReplay :: "BlockColumnEntry \<Rightarrow> nat \<Rightarrow> BlockEntry \<Rightarrow> BlockEntry" where
  "AddColumnReplay column_entry column_id block_entry =
     block_entry\<lparr>be_columns := (be_columns block_entry)(column_id \<mapsto> column_entry)\<rparr>"

definition AddBlockReplay :: "BlockEntry \<Rightarrow> nat \<Rightarrow> SegmentEntry \<Rightarrow> SegmentEntry" where
  "AddBlockReplay block_entry block_id segment_entry =
     segment_entry\<lparr>se_block_entries := (se_block_entries segment_entry)(block_id \<mapsto> block_entry)\<rparr>"

definition AddSegmentReplayWalImport :: "SegmentEntry \<Rightarrow> TableEntry \<Rightarrow> TableEntry" where
  "AddSegmentReplayWalImport segment_entry table_entry =
     table_entry\<lparr>te_segment_map :=
       (te_segment_map table_entry)(se_segment_id segment_entry \<mapsto> segment_entry)\<rparr>"

definition AddSegmentReplayWalCompact :: "SegmentEntry \<Rightarrow> TableEntry \<Rightarrow> TableEntry" where
  "AddSegmentReplayWalCompact segment_entry table_entry =
     table_entry\<lparr>te_segment_map :=
       (te_segment_map table_entry)(se_segment_id segment_entry \<mapsto> segment_entry)\<rparr>"

subsection \<open>ReplaySegment\<close>

text \<open>
  The inner loop of \<^verbatim>\<open>ReplaySegment\<close>, over the outline infos of a block, and the
  body of the outer loop, which builds the block. \<^verbatim>\<open>ColumnID\<close> is as wide as the
  size of the vector, so the cast in the loop bound changes nothing.
\<close>

definition ReplayBlock :: "WalBlockInfo \<Rightarrow> nat \<Rightarrow> TxnTimeStamp \<Rightarrow> BlockEntry" where
  "ReplayBlock block_info block_id commit_timestamp =
     fold (\<lambda>column_id block_entry.
             let (next_idx, last_off) = bi_outline_infos block_info ! column_id;
                 column_entry = NewReplayBlockColumnEntry column_id next_idx last_off commit_timestamp
             in AddColumnReplay column_entry column_id block_entry)
          [0 ..< length (bi_outline_infos block_info)]
          (NewReplayBlockEntry block_id (bi_row_count block_info) (bi_row_capacity block_info)
             commit_timestamp commit_timestamp commit_timestamp commit_timestamp
             (bi_row_count block_info))"

text \<open>
  \<^verbatim>\<open>ReplaySegment\<close>. The loop bound is \<^verbatim>\<open>(BlockID)segment_info.block_infos_.size()\<close>;
  \<^verbatim>\<open>BlockID\<close> is declared outside the sources at hand, so its width in bits is the
  parameter \<open>BlockID_bits\<close> and the cast is the remainder modulo \<open>2 ^ BlockID_bits\<close>.
\<close>

definition ReplaySegment ::
  "nat \<Rightarrow> WalSegmentInfo \<Rightarrow> TransactionID \<Rightarrow> TxnTimeStamp \<Rightarrow> SegmentEntry" where
  "ReplaySegment BlockID_bits segment_info txn commit_timestamp =
     fold (\<lambda>block_id segment_entry.
             let block_info = si_block_infos segment_info ! block_id;
                 block_entry = ReplayBlock block_info block_id commit_timestamp
             in AddBlockReplay block_entry block_id segment_entry)
          [0 ..< length (si_block_infos segment_info) mod 2 ^ BlockID_bits]
          (NewReplaySegmentEntry (si_segment_id segment_info) kSealed
             (si_column_count segment_info) (si_row_count segment_info)
             (si_actual_row_count segment_info) (si_row_capacity segment_info)
             commit_timestamp commit_timestamp commit_timestamp UNCOMMIT_TS 0 txn)"

subsection \<open>The replay handlers of Import and Compact\<close>

definition WalCmdImportReplay ::
  "nat \<Rightarrow> string \<Rightarrow> string \<Rightarrow> WalSegmentInfo \<Rightarrow> TransactionID \<Rightarrow> TxnTimeStamp \<Rightarrow> Catalog
     \<Rightarrow> error + Catalog" where
  "WalCmdImportReplay BlockID_bits db_name table_name segment_info txn commit_timestamp catalog =
     (case catalog (db_name, table_name) of
        None \<Rightarrow> Inl (UnrecoverableError ''Wal Replay: Get table failed'')
      | Some table_entry \<Rightarrow>
          let segment_entry = ReplaySegment BlockID_bits segment_info txn commit_timestamp
          in Inr (catalog((db_name, table_name) \<mapsto>
                    AddSegmentReplayWalImport segment_entry table_entry)))"

text \<open>The first loop of \<^verbatim>\<open>WalCmdCompactReplay\<close>, over \<^verbatim>\<open>new_segment_infos_\<close>.\<close>

fun Compact_new_segments ::
  "nat \<Rightarrow> WalSegmentInfo list \<Rightarrow> TransactionID \<Rightarrow> TxnTimeStamp \<Rightarrow> TableEntry \<Rightarrow> TableEntry" where
  "Compact_new_segments BlockID_bits [] txn commit_timestamp table_entry = table_entry"
| "Compact_new_segments BlockID_bits (new_segment_info # rest) txn commit_timestamp table_entry =
     Compact_new_segments BlockID_bits rest txn commit_timestamp
       (AddSegmentReplayWalCompact
          (ReplaySegment BlockID_bits new_segment_info txn commit_timestamp) table_entry)"

text \<open>
  Modelled from the spec: \<^verbatim>\<open>TableEntry::GetSegmentByID\<close> and
  \<^verbatim>\<open>SegmentEntry::TrySetCompacting\<close>, \<^verbatim>\<open>SetNoDelete\<close>, \<^verbatim>\<open>SetDeprecated\<close> are
  defined outside the sources at hand. "A compaction must observe the precondition
  status \<in> {Sealed} on deprecated segments"; it "marks deprecated segments by setting
  \<^verbatim>\<open>deprecate_ts = commit_ts\<close> and moving them into status Deprecated".
\<close>

definition TrySetCompacting :: "SegmentEntry \<Rightarrow> bool \<times> SegmentEntry" where
  "TrySetCompacting segment_entry =
     (if se_status segment_entry = kSealed
      then (True, segment_entry\<lparr>se_status := kCompacting\<rparr>)
      else (False, segment_entry))"

definition SetNoDelete :: "SegmentEntry \<Rightarrow> SegmentEntry" where
  "SetNoDelete segment_entry = segment_entry\<lparr>se_status := kNoDelete\<rparr>"

definition SetDeprecated :: "TxnTimeStamp \<Rightarrow> SegmentEntry \<Rightarrow> SegmentEntry" where
  "SetDeprecated ts segment_entry =
     segment_entry\<lparr>se_status := kDeprecated, se_deprecate_ts := ts\<rparr>"

text \<open>
  The second loop, over \<^verbatim>\<open>deprecated_segment_ids_\<close>. The source calls
  \<^verbatim>\<open>TrySetCompacting\<close> on what \<^verbatim>\<open>GetSegmentByID\<close> returns without a null check; a
  segment that is not there is an error of the model.
\<close>

fun Compact_deprecate :: "SegmentID list \<Rightarrow> TxnTimeStamp \<Rightarrow> TableEntry \<Rightarrow> error + TableEntry" where
  "Compact_deprecate [] commit_timestamp table_entry = Inr table_entry"
| "Compact_deprecate (segment_id # rest) commit_timestamp table_entry =
     (case te_segment_map table_entry segment_id of
        None \<Rightarrow> Inl (Fault ''null dereference'')
      | Some segment_entry \<Rightarrow>
          (case TrySetCompacting segment_entry of
             (False, segment_entry') \<Rightarrow>
               Inl (UnrecoverableError ''Assert: Replay segment should be compactable.'')
           | (True, segment_entry') \<Rightarrow>
               Compact_deprecate rest commit_timestamp
                 (table_entry\<lparr>te_segment_map := (te_segment_map table_entry)
                    (segment_id \<mapsto> SetDeprecated commit_timestamp (SetNoDelete segment_entry'))\<rparr>)))"

definition WalCmdCompactReplay ::
  "nat \<Rightarrow> string \<Rightarrow> string \<Rightarrow> WalSegmentInfo list \<Rightarrow> SegmentID list \<Rightarrow> TransactionID
     \<Rightarrow> TxnTimeStamp \<Rightarrow> Catalog \<Rightarrow> error + Catalog" where
  "WalCmdCompactReplay BlockID_bits db_name table_name new_segment_infos deprecated_segment_ids
       txn commit_timestamp catalog =
     (case catalog (db_name, table_name) of
        None \<Rightarrow> Inl (UnrecoverableError ''Wal Replay: Get table failed'')
      | Some table_entry \<Rightarrow>
          (case Compact_deprecate deprecated_segment_ids commit_timestamp
                  (Compact_new_segments BlockID_bits new_segment_infos txn commit_timestamp table_entry) of
             Inl e \<Rightarrow> Inl e
           | Inr table_entry' \<Rightarrow> Inr (catalog((db_name, table_name) \<mapsto> table_entry'))))"

subsection \<open>ReplayWalEntry\<close>

record WalFileInfo =
  wfi_path :: string
  wfi_max_commit_ts :: TxnTimeStamp

text \<open>
  What \<^verbatim>\<open>ReplayWalFile\<close> and \<^verbatim>\<open>ReplayWalEntry\<close> call outside the sources at hand,
  as parameters: the result of \<^verbatim>\<open>WalFile::ParseWalFilenames(wal_dir_)\<close>; the entries
  that \<^verbatim>\<open>WalListIterator::Next\<close> yields for a list of files, one after the other
  until it returns null; the catalog that \<^verbatim>\<open>Storage::InitNewCatalog\<close> sets up;
  \<^verbatim>\<open>Path::parent_path\<close>; \<^verbatim>\<open>CatalogFile::ParseValidCheckpointFilenames\<close>;
  \<^verbatim>\<open>Storage::AttachCatalog\<close>; the replay handlers that work through catalog code
  not at hand; and the width of \<^verbatim>\<open>BlockID\<close>.
\<close>

record ReplayEnv =
  ParseWalFilenames :: "WalFileInfo option \<times> WalFileInfo list"
  WalListIterator :: "string list \<Rightarrow> WalEntry list"
  InitNewCatalog :: Catalog
  parent_path :: "string \<Rightarrow> string"
  ParseValidCheckpointFilenames :: "string \<Rightarrow> TxnTimeStamp \<Rightarrow> (string \<times> string list) option"
  AttachCatalog :: "string \<Rightarrow> string list \<Rightarrow> Catalog"
  ReplayOther :: "WalCmd \<Rightarrow> TransactionID \<Rightarrow> TxnTimeStamp \<Rightarrow> Catalog \<Rightarrow> error + Catalog"
  BlockID_width :: nat

text \<open>The \<^verbatim>\<open>switch\<close> of \<^verbatim>\<open>ReplayWalEntry\<close> on the type of a command.\<close>

fun ReplayWalCmd ::
  "ReplayEnv \<Rightarrow> WalCmd \<Rightarrow> TransactionID \<Rightarrow> TxnTimeStamp \<Rightarrow> Catalog \<Rightarrow> error + Catalog" where
  "ReplayWalCmd env ALTER_INFO txn ts catalog =
     Inl (RecoverableError ''WalCmdAlterInfo Replay Not implemented'')"
| "ReplayWalCmd env (IMPORT db_name table_name segment_info) txn ts catalog =
     WalCmdImportReplay (BlockID_width env) db_name table_name segment_info txn ts catalog"
| "ReplayWalCmd env (CHECKPOINT c) txn ts catalog = Inr catalog"
| "ReplayWalCmd env (COMPACT db_name table_name new_segment_infos deprecated_segment_ids) txn ts catalog =
     WalCmdCompactReplay (BlockID_width env) db_name table_name new_segment_infos
       deprecated_segment_ids txn ts catalog"
| "ReplayWalCmd env cmd txn ts catalog = ReplayOther env cmd txn ts catalog"

fun ReplayWalCmds ::
  "ReplayEnv \<Rightarrow> WalCmd list \<Rightarrow> TransactionID \<Rightarrow> TxnTimeStamp \<Rightarrow> Catalog \<Rightarrow> error + Catalog" where
  "ReplayWalCmds env [] txn ts catalog = Inr catalog"
| "ReplayWalCmds env (cmd # rest) txn ts catalog =
     (case ReplayWalCmd env cmd txn ts catalog of
        Inl e \<Rightarrow> Inl e
      | Inr catalog' \<Rightarrow> ReplayWalCmds env rest txn ts catalog')"

definition ReplayWalEntry :: "ReplayEnv \<Rightarrow> WalEntry \<Rightarrow> Catalog \<Rightarrow> error + Catalog" where
  "ReplayWalEntry env entry catalog =
     ReplayWalCmds env (cmds entry) (txn_id entry) (commit_ts entry) catalog"

subsection \<open>ReplayWalFile\<close>

text \<open>
  Modelled from the spec: \<^verbatim>\<open>WalEntry::IsCheckPoint\<close> is defined outside the sources
  at hand. An entry is a checkpoint entry when it holds a \<^verbatim>\<open>Checkpoint\<close> command,
  and that command is handed back.
\<close>

fun find_checkpoint :: "WalCmd list \<Rightarrow> WalCmdCheckpoint option" where
  "find_checkpoint [] = None"
| "find_checkpoint (CHECKPOINT c # rest) = Some c"
| "find_checkpoint (cmd # rest) = find_checkpoint rest"

definition IsCheckPoint :: "WalEntry \<Rightarrow> WalEntry list \<Rightarrow> WalCmdCheckpoint option" where
  "IsCheckPoint entry replay_entries = find_checkpoint (cmds entry)"

text \<open>The sorted list of files: the active \<^verbatim>\<open>wal.log\<close> first, then the rolled files, newest first.\<close>

definition Replay_wal_list :: "ReplayEnv \<Rightarrow> string list" where
  "Replay_wal_list env =
     (case ParseWalFilenames env of
        (temp_wal_info, wal_infos) \<Rightarrow>
          (case temp_wal_info of None \<Rightarrow> [] | Some info \<Rightarrow> [wfi_path info]) @
          map wfi_path (rev (sort_key wfi_max_commit_ts wal_infos)))"

text \<open>The local variables of \<^verbatim>\<open>ReplayWalFile\<close> that the two scanning loops work on.\<close>

record ReplayLocals =
  rl_max_commit_ts :: TxnTimeStamp
  rl_replay_entries :: "WalEntry list"
  rl_catalog_dir :: string
  rl_system_start_ts :: TxnTimeStamp

text \<open>Phase 1: scan until a checkpoint entry; the rest of the iterator is handed on.\<close>

fun Replay_phase1 :: "ReplayEnv \<Rightarrow> WalEntry list \<Rightarrow> ReplayLocals \<Rightarrow> ReplayLocals \<times> WalEntry list" where
  "Replay_phase1 env [] l = (l, [])"
| "Replay_phase1 env (wal_entry # iterator) l =
     (case IsCheckPoint wal_entry (rl_replay_entries l) of
        Some checkpoint_cmd \<Rightarrow>
          (l\<lparr>rl_max_commit_ts := ckp_max_commit_ts checkpoint_cmd,
             rl_catalog_dir := parent_path env (ckp_catalog_path checkpoint_cmd),
             rl_system_start_ts := commit_ts wal_entry\<rparr>, iterator)
      | None \<Rightarrow>
          Replay_phase1 env iterator (l\<lparr>rl_replay_entries := rl_replay_entries l @ [wal_entry]\<rparr>))"

text \<open>Phase 2: go on while the entries are newer than the checkpoint.\<close>

fun Replay_phase2 :: "WalEntry list \<Rightarrow> ReplayLocals \<Rightarrow> ReplayLocals" where
  "Replay_phase2 [] l = l"
| "Replay_phase2 (wal_entry # iterator) l =
     (if commit_ts wal_entry > rl_max_commit_ts l
      then Replay_phase2 iterator (l\<lparr>rl_replay_entries := rl_replay_entries l @ [wal_entry]\<rparr>)
      else l)"

text \<open>
  Phase 3: replay the entries; the loop carries \<^verbatim>\<open>system_start_ts\<close>,
  \<^verbatim>\<open>last_txn_id\<close> and the catalog.
\<close>

fun Replay_phase3 ::
  "ReplayEnv \<Rightarrow> WalEntry list \<Rightarrow> TxnTimeStamp \<Rightarrow> TxnTimeStamp \<times> TransactionID \<times> Catalog
     \<Rightarrow> error + TxnTimeStamp \<times> TransactionID \<times> Catalog" where
  "Replay_phase3 env [] max_ts acc = Inr acc"
| "Replay_phase3 env (entry # rest) max_ts (system_start_ts, last_txn_id, catalog) =
     (if commit_ts entry < max_ts then
        Inl (UnrecoverableError ''Wal Replay: Commit ts should be greater than max commit ts'')
      else
        case ReplayWalEntry env entry catalog of
          Inl e \<Rightarrow> Inl e
        | Inr catalog' \<Rightarrow> Replay_phase3 env rest max_ts (commit_ts entry, txn_id entry, catalog'))"

text \<open>
  What \<^verbatim>\<open>ReplayWalFile\<close> leaves behind when it returns: the value returned, the
  catalog of the storage, the \<^verbatim>\<open>next_txn_id_\<close> it assigns to the catalog (if it
  does) and the manager. The closing call of \<^verbatim>\<open>Catalog::InitDeltaEntry\<close> works on
  catalog state that is not part of this model.
\<close>

record Replayed =
  rp_return :: "64 word"
  rp_catalog :: Catalog
  rp_next_txn_id :: "TransactionID option"
  rp_manager :: WalManager

definition ReplayWalFile :: "ReplayEnv \<Rightarrow> WalManager \<Rightarrow> error + Replayed" where
  "ReplayWalFile env s =
     (let wal_list = Replay_wal_list env
      in if wal_list = [] then
           Inr \<lparr>rp_return = 0, rp_catalog = InitNewCatalog env, rp_next_txn_id = None,
                rp_manager = s\<rparr>
         else
           let l0 = \<lparr>rl_max_commit_ts = 0, rl_replay_entries = [], rl_catalog_dir = [],
                     rl_system_start_ts = 0\<rparr>;
               (l1, iterator) = Replay_phase1 env (WalListIterator env wal_list) l0;
               l2 = Replay_phase2 iterator l1
           in if rl_system_start_ts l2 = 0 then
                Inl (UnrecoverableError ''No checkpoint found in wal'')
              else
                case ParseValidCheckpointFilenames env (rl_catalog_dir l2) (rl_max_commit_ts l2) of
                  None \<Rightarrow> Inl (UnrecoverableError ''Wal Replay: Parse catalog file failed'')
                | Some (full_catalog_fileinfo, delta_catalog_fileinfos) \<Rightarrow>
                    (case Replay_phase3 env (rev (rl_replay_entries l2)) (rl_max_commit_ts l2)
                            (rl_system_start_ts l2, 0,
                             AttachCatalog env full_catalog_fileinfo delta_catalog_fileinfos) of
                       Inl e \<Rightarrow> Inl e
                     | Inr (system_start_ts, last_txn_id, catalog) \<Rightarrow>
                         Inr \<lparr>rp_return = system_start_ts, rp_catalog = catalog,
                              rp_next_txn_id = Some last_txn_id,
                              rp_manager = s\<lparr>max_commit_ts := system_start_ts\<rparr>\<rparr>))"

section \<open>Full-text index readers\<close>

subsection \<open>ColumnIndexReader::Open\<close>

type_synonym RowID = "64 word"
type_synonym optionflag_t = nat

text \<open>
  Modelled from the spec: \<^verbatim>\<open>INVALID_ROWID\<close> is declared outside the sources at hand;
  it is a row id that no row has.
\<close>

definition INVALID_ROWID :: RowID where
  "INVALID_ROWID = - 1"

record MemoryIndexer =
  mi_doc_count :: nat
  mi_base_name :: string
  mi_base_row_id :: RowID

text \<open>
  Modelled from the spec: \<^verbatim>\<open>SegmentIndexEntry\<close> is defined outside the sources at
  hand. For full-text "each SegmentIndex holds an on-disk posting set (a list of
  \<^verbatim>\<open>(base_name, base_row_id)\<close>) plus an optional in-memory indexer", and
  \<^verbatim>\<open>GetFullTextIndexSnapshot\<close> hands out the names, the row ids and the indexer.
\<close>

record SegmentIndexEntry =
  ft_posting_set :: "(string \<times> RowID) list"
  memory_indexer :: "MemoryIndexer option"

definition GetFullTextIndexSnapshot ::
  "SegmentIndexEntry \<Rightarrow> string list \<times> RowID list \<times> MemoryIndexer option" where
  "GetFullTextIndexSnapshot segment_index_entry =
     (map fst (ft_posting_set segment_index_entry),
      map snd (ft_posting_set segment_index_entry),
      memory_indexer segment_index_entry)"

datatype IndexSegmentReader =
    DiskIndexSegmentReader string string RowID optionflag_t
  | InMemIndexSegmentReader MemoryIndexer

text \<open>
  The fields of \<^verbatim>\<open>ColumnIndexReader\<close>. \<^verbatim>\<open>Map<SegmentID, ...>\<close> is an ordered map,
  a red-black tree whose iteration goes by ascending key.
\<close>

record ColumnIndexReader =
  cir_flag :: optionflag_t
  cir_segment_readers :: "IndexSegmentReader list"
  cir_index_by_segment :: "(SegmentID, SegmentIndexEntry) rbt"
  cir_index_dir :: string
  cir_base_names :: "string list"
  cir_base_row_ids :: "RowID list"

text \<open>The reader that \<^verbatim>\<open>MakeShared<ColumnIndexReader>()\<close> constructs (the flag is not initialized).\<close>

definition new_ColumnIndexReader :: ColumnIndexReader where
  "new_ColumnIndexReader =
     \<lparr>cir_flag = 0, cir_segment_readers = [], cir_index_by_segment = RBT.empty,
      cir_index_dir = [], cir_base_names = [], cir_base_row_ids = []\<rparr>"

text \<open>The body of the loop of \<^verbatim>\<open>Open\<close> over the segments.\<close>

definition Open_segment :: "optionflag_t \<Rightarrow> SegmentIndexEntry \<Rightarrow> ColumnIndexReader \<Rightarrow> ColumnIndexReader" where
  "Open_segment flag segment_index_entry r =
     (case GetFullTextIndexSnapshot segment_index_entry of
        (base_names, base_row_ids, indexer) \<Rightarrow>
          let r1 = fold (\<lambda>i r'. r'\<lparr>cir_segment_readers := cir_segment_readers r' @
                                    [DiskIndexSegmentReader (cir_index_dir r') (base_names ! i)
                                       (base_row_ids ! i) flag]\<rparr>)
                        [0 ..< length base_names] r;
              r2 = r1\<lparr>cir_base_names := cir_base_names r1 @ base_names,
                       cir_base_row_ids := cir_base_row_ids r1 @ base_row_ids\<rparr>
          in case indexer of
               None \<Rightarrow> r2
             | Some mi \<Rightarrow>
                 if mi_doc_count mi \<noteq> 0 then
                   r2\<lparr>cir_segment_readers := cir_segment_readers r2 @ [InMemIndexSegmentReader mi],
                      cir_base_names := cir_base_names r2 @ [mi_base_name mi],
                      cir_base_row_ids := cir_base_row_ids r2 @ [mi_base_row_id mi]\<rparr>
                 else r2)"

definition Open ::
  "optionflag_t \<Rightarrow> string \<Rightarrow> (SegmentID, SegmentIndexEntry) rbt \<Rightarrow> ColumnIndexReader
     \<Rightarrow> ColumnIndexReader" where
  "Open flag index_dir index_by_segment r =
     (let r0 = r\<lparr>cir_flag := flag, cir_index_dir := index_dir,
                  cir_index_by_segment := index_by_segment\<rparr>;
          r1 = fold (\<lambda>(segment_id, segment_index_entry) r'. Open_segment flag segment_index_entry r')
                    (RBT.entries (cir_index_by_segment r0)) r0
      in r1\<lparr>cir_base_row_ids := cir_base_row_ids r1 @ [INVALID_ROWID]\<rparr>)"

text \<open>The row ids that a segment adds to \<^verbatim>\<open>base_row_ids_\<close>, for stating what \<^verbatim>\<open>Open\<close> collects.\<close>

definition segment_row_ids :: "SegmentIndexEntry \<Rightarrow> RowID list" where
  "segment_row_ids e =
     map snd (ft_posting_set e) @
     (case memory_indexer e of
        None \<Rightarrow> []
      | Some mi \<Rightarrow> if mi_doc_count mi \<noteq> 0 then [mi_base_row_id mi] else [])"

definition segment_base_names :: "SegmentIndexEntry \<Rightarrow> string list" where
  "segment_base_names e =
     map fst (ft_posting_set e) @
     (case memory_indexer e of
        None \<Rightarrow> []
      | Some mi \<Rightarrow> if mi_doc_count mi \<noteq> 0 then [mi_base_name mi] else [])"

subsection \<open>TableIndexReaderCache::GetIndexReader\<close>

text \<open>
  \<^verbatim>\<open>SharedPtr\<close>s are addresses into a store, so that two holders of one object are
  told from holders of equal objects. The store has the maps from column id to reader,
  the maps from column name to analyzer, the readers and the memory pools; \<open>next_ptr\<close>
  is the address that the next \<^verbatim>\<open>MakeShared\<close> hands out. \<open>None\<close> is the null pointer.
\<close>

type_synonym ptr = nat

record Store =
  reader_maps :: "ptr \<rightharpoonup> (nat \<rightharpoonup> ptr)"
  analyzer_maps :: "ptr \<rightharpoonup> (string \<rightharpoonup> string)"
  readers :: "ptr \<rightharpoonup> ColumnIndexReader"
  memory_pools :: "ptr list"
  next_ptr :: ptr

record IndexReader =
  ir_column_index_readers :: "ptr option"
  ir_column2analyzer :: "ptr option"
  ir_session_pool :: "ptr option"

record TableIndexReaderCache =
  first_known_update_ts :: TxnTimeStamp
  last_known_update_ts :: TxnTimeStamp
  cache_ts :: TxnTimeStamp
  cache_column_ts :: "nat \<rightharpoonup> TxnTimeStamp"
  cache_column_readers :: "ptr option"
  column2analyzer :: "ptr option"

text \<open>
  What \<^verbatim>\<open>GetIndexReader\<close> reads of the table through code outside the sources at
  hand: per index of \<^verbatim>\<open>IndexMetaMap()\<close>, in the order of iteration, the entry that
  \<^verbatim>\<open>GetEntryNolock(txn_id, begin_ts)\<close> finds (or none, when the status is not ok),
  and of that entry the index type, column, analyzer, flag, directory, the update
  timestamp and the snapshot of its segment indexes; and \<^verbatim>\<open>GetColumnIdByName\<close>.
\<close>

datatype IndexType = kFullText | kNotFullText

record TableIndexEntry =
  index_type :: IndexType
  column_name :: string
  analyzer :: string
  ft_flag :: optionflag_t
  tie_index_dir :: string
  fulltext_segment_update_ts :: TxnTimeStamp
  index_by_segment_snapshot :: "(SegmentID, SegmentIndexEntry) rbt"

record TableIndexView =
  IndexMetaMap :: "(string \<times> (TransactionID \<Rightarrow> TxnTimeStamp \<Rightarrow> TableIndexEntry option)) list"
  GetColumnIdByName :: "string \<Rightarrow> nat"

text \<open>
  The locals of the slow path: \<^verbatim>\<open>cache_column_ts\<close> and the two maps under
  construction. The source fills the maps through the pointers it has just made; no
  one else holds these pointers before the function returns, so the model fills the
  maps as values and puts them into the store at those addresses at the end.
\<close>

record BuildLocals =
  bl_cache_column_ts :: "nat \<rightharpoonup> TxnTimeStamp"
  bl_column_index_readers :: "nat \<rightharpoonup> ptr"
  bl_column2analyzer :: "string \<rightharpoonup> string"
  bl_store :: Store

text \<open>The body of the loop over the indexes of the table, for one index that was found.\<close>

definition GetIndexReader_index ::
  "TableIndexView \<Rightarrow> TableIndexReaderCache \<Rightarrow> TableIndexEntry \<Rightarrow> BuildLocals \<Rightarrow> error + BuildLocals" where
  "GetIndexReader_index table cache table_index_entry l =
     (if index_type table_index_entry \<noteq> kFullText then Inr l
      else
        let column_id = GetColumnIdByName table (column_name table_index_entry);
            ts = fulltext_segment_update_ts table_index_entry;
            target_ts = (case bl_cache_column_ts l column_id of None \<Rightarrow> 0 | Some t \<Rightarrow> t);
            l1 = l\<lparr>bl_cache_column_ts := (bl_cache_column_ts l)(column_id \<mapsto> target_ts)\<rparr>
        in if target_ts < ts then
             let l2 = l1\<lparr>bl_cache_column_ts := (bl_cache_column_ts l1)(column_id \<mapsto> ts),
                        bl_column2analyzer := (bl_column2analyzer l1)
                          (column_name table_index_entry \<mapsto> analyzer table_index_entry)\<rparr>
             in if cache_column_ts cache column_id = Some ts then
                  (case cache_column_readers cache of
                     None \<Rightarrow> Inl (Fault ''null dereference'')
                   | Some cached \<Rightarrow>
                       (case reader_maps (bl_store l2) cached of
                          None \<Rightarrow> Inl (Fault ''null dereference'')
                        | Some cached_map \<Rightarrow>
                            (case cached_map column_id of
                               None \<Rightarrow> Inl (Fault ''out_of_range'')
                             | Some reader \<Rightarrow>
                                 Inr (l2\<lparr>bl_column_index_readers :=
                                           (bl_column_index_readers l2)(column_id \<mapsto> reader)\<rparr>))))
                else
                  let st = bl_store l2;
                      column_index_reader = next_ptr st;
                      opened = Open (ft_flag table_index_entry) (tie_index_dir table_index_entry)
                                 (index_by_segment_snapshot table_index_entry) new_ColumnIndexReader
                  in Inr (l2\<lparr>bl_store := st\<lparr>readers := (readers st)(column_index_reader \<mapsto> opened),
                                              next_ptr := next_ptr st + 1\<rparr>,
                             bl_column_index_readers :=
                               (bl_column_index_readers l2)(column_id \<mapsto> column_index_reader)\<rparr>)
           else Inr l1)"

fun GetIndexReader_loop ::
  "TransactionID \<Rightarrow> TxnTimeStamp \<Rightarrow> TableIndexView \<Rightarrow> TableIndexReaderCache
     \<Rightarrow> (string \<times> (TransactionID \<Rightarrow> TxnTimeStamp \<Rightarrow> TableIndexEntry option)) list
     \<Rightarrow> BuildLocals \<Rightarrow> error + BuildLocals" where
  "GetIndexReader_loop txn begin_ts table cache [] l = Inr l"
| "GetIndexReader_loop txn begin_ts table cache ((index_name, table_index_meta) # rest) l =
     (case table_index_meta txn begin_ts of
        None \<Rightarrow> Inl (RecoverableError ''Table index entry is not found'')
      | Some table_index_entry \<Rightarrow>
          (case GetIndexReader_index table cache table_index_entry l of
             Inl e \<Rightarrow> Inl e
           | Inr l' \<Rightarrow> GetIndexReader_loop txn begin_ts table cache rest l'))"

definition GetIndexReader ::
  "TransactionID \<Rightarrow> TxnTimeStamp \<Rightarrow> TableIndexView \<Rightarrow> TableIndexReaderCache \<Rightarrow> Store
     \<Rightarrow> error + IndexReader \<times> TableIndexReaderCache \<times> Store" where
  "GetIndexReader txn begin_ts table cache st =
     (let session_pool = next_ptr st;
          st0 = st\<lparr>memory_pools := memory_pools st @ [session_pool], next_ptr := next_ptr st + 1\<rparr>
      in if begin_ts \<ge> cache_ts cache \<and> begin_ts < first_known_update_ts cache then
           Inr (\<lparr>ir_column_index_readers = cache_column_readers cache,
                 ir_column2analyzer = column2analyzer cache,
                 ir_session_pool = Some session_pool\<rparr>, cache, st0)
         else
           let column_index_readers = next_ptr st0;
               column2analyzer_ptr = next_ptr st0 + 1;
               st1 = st0\<lparr>next_ptr := next_ptr st0 + 2\<rparr>
           in case GetIndexReader_loop txn begin_ts table cache (IndexMetaMap table)
                     \<lparr>bl_cache_column_ts = Map.empty, bl_column_index_readers = Map.empty,
                      bl_column2analyzer = Map.empty, bl_store = st1\<rparr> of
                Inl e \<Rightarrow> Inl e
              | Inr l \<Rightarrow>
                  let st2 = (bl_store l)
                        \<lparr>reader_maps := (reader_maps (bl_store l))
                           (column_index_readers \<mapsto> bl_column_index_readers l),
                         analyzer_maps := (analyzer_maps (bl_store l))
                           (column2analyzer_ptr \<mapsto> bl_column2analyzer l)\<rparr>;
                      result = \<lparr>ir_column_index_readers = Some column_index_readers,
                                ir_column2analyzer = Some column2analyzer_ptr,
                                ir_session_pool = Some session_pool\<rparr>
                  in if begin_ts \<ge> last_known_update_ts cache then
                       Inr (result,
                            cache\<lparr>cache_ts := last_known_update_ts cache,
                                  first_known_update_ts := - 1,
                                  last_known_update_ts := 0,
                                  cache_column_ts := bl_cache_column_ts l,
                                  cache_column_readers := ir_column_index_readers result,
                                  column2analyzer := ir_column2analyzer result\<rparr>,
                            st2)
                     else Inr (result, cache, st2))"

section \<open>Sample inputs\<close>

definition entry1 :: WalEntry where
  "entry1 = \<lparr>txn_id = 1, commit_ts = 10, cmds = [DROP_DATABASE ''d'']\<rparr>"

definition entry2 :: WalEntry where
  "entry2 = \<lparr>txn_id = 2, commit_ts = 11, cmds = [DROP_TABLE ''d'' ''t'']\<rparr>"

definition wm0 :: WalManager where
  "wm0 = \<lparr>running = True, blocking_queue = [], ofs_pending = [],
          disk = \<lparr>wal_log = [], wal_rolled = [], catalog_files = []\<rparr>,
          max_commit_ts = 0, wal_size = 0, last_ckp_wal_size = 0,
          checkpoint_in_progress = False, last_ckp_ts = UNCOMMIT_TS,
          last_full_ckp_ts = UNCOMMIT_TS, cfg_wal_size_threshold = 1024,
          cfg_delta_checkpoint_interval_wal_bytes = 4096, flush_option = kFlushAtOnce,
          flush_thread = NotStarted, txns = [1, 2], trace = []\<rparr>"

text \<open>The manager before \<^verbatim>\<open>Start\<close>, or after \<^verbatim>\<open>Stop\<close>.\<close>

definition wm_stopped :: WalManager where
  "wm_stopped = wm0\<lparr>running := False\<rparr>"

text \<open>
  A serializer of three bytes per entry; a size prediction that agrees with it, one
  that is too large for the second entry, and one that is negative.
\<close>

definition W0 :: "WalEntry \<Rightarrow> byte list" where
  "W0 e = [of_nat (unat (txn_id e)), 7, 7]"

definition G0 :: "WalEntry \<Rightarrow> 32 word" where
  "G0 e = 3"



text \<open>A \<^verbatim>\<open>Txn::Checkpoint\<close> that succeeds and leaves the files as they are.\<close>

definition ckp_ok :: "TxnTimeStamp \<Rightarrow> bool \<Rightarrow> Disk \<Rightarrow> CheckpointOutcome \<times> Disk" where
  "ckp_ok ts is_full_checkpoint d = (CkpDone, d)"

text \<open>A manager with one rolled log file and two catalog files, after a checkpoint at 3.\<close>

definition wmc :: WalManager where
  "wmc = wm0\<lparr>disk := \<lparr>wal_log = [2, 7, 7], wal_rolled = [(5, [1, 7, 7])],
                        catalog_files = [(FULL, 2), (DELTA, 3)]\<rparr>,
             max_commit_ts := 10, wal_size := 6, last_ckp_wal_size := 0,
             checkpoint_in_progress := True, last_ckp_ts := 3, last_full_ckp_ts := 2\<rparr>"

text \<open>A segment of one block with two columns, and a table that holds the sealed segment 3.\<close>

definition seg_info0 :: WalSegmentInfo where
  "seg_info0 = \<lparr>si_segment_id = 7, si_column_count = 2, si_row_count = 3,
                si_actual_row_count = 3, si_row_capacity = 8192,
                si_block_infos = [\<lparr>bi_row_count = 3, bi_row_capacity = 8192,
                                   bi_outline_infos = [(1, 16), (0, 0)]\<rparr>]\<rparr>"

definition seg_info3 :: WalSegmentInfo where
  "seg_info3 = \<lparr>si_segment_id = 3, si_column_count = 2, si_row_count = 0,
                si_actual_row_count = 0, si_row_capacity = 8192, si_block_infos = []\<rparr>"

definition cat0 :: Catalog where
  "cat0 = [(''db'', ''t'') \<mapsto> \<lparr>te_segment_map = [3 \<mapsto> ReplaySegment 16 seg_info3 1 5]\<rparr>]"

text \<open>
  A WAL directory with \<^verbatim>\<open>wal.log\<close> and \<^verbatim>\<open>wal.log.5\<close> that hold two entries, none of
  them a checkpoint.
\<close>

definition env0 :: ReplayEnv where
  "env0 = \<lparr>ParseWalFilenames =
             (Some \<lparr>wfi_path = ''wal.log'', wfi_max_commit_ts = 0\<rparr>,
              [\<lparr>wfi_path = ''wal.log.5'', wfi_max_commit_ts = 5\<rparr>]),
           WalListIterator = (\<lambda>files. [entry2, entry1]),
           InitNewCatalog = Map.empty,
           parent_path = (\<lambda>p. p),
           ParseValidCheckpointFilenames = (\<lambda>dir ts. Some (''FULL'', [])),
           AttachCatalog = (\<lambda>full deltas. Map.empty),
           ReplayOther = (\<lambda>cmd txn ts catalog. Inr catalog),
           BlockID_width = 16\<rparr>"

text \<open>Two indexed segments, given out of order; the second has a non-empty in-memory indexer.\<close>

definition seg_index2 :: SegmentIndexEntry where
  "seg_index2 = \<lparr>ft_posting_set = [(''ft_2a'', 200), (''ft_2b'', 250)], memory_indexer = None\<rparr>"

definition seg_index5 :: SegmentIndexEntry where
  "seg_index5 = \<lparr>ft_posting_set = [(''ft_5a'', 500)],
                 memory_indexer = Some \<lparr>mi_doc_count = 4, mi_base_name = ''ft_5m'',
                                        mi_base_row_id = 540\<rparr>\<rparr>"

definition index_by_segment0 :: "(SegmentID, SegmentIndexEntry) rbt" where
  "index_by_segment0 = RBT.bulkload [(5, seg_index5), (2, seg_index2)]"

text \<open>
  A table with one full-text index on column 2; the cache and the store as they are
  at first, and as they are after a first reader was built at timestamp 10.
\<close>

definition table0 :: TableIndexView where
  "table0 = \<lparr>IndexMetaMap =
               [(''idx_text'', \<lambda>txn ts. Some \<lparr>index_type = kFullText, column_name = ''text'',
                    analyzer = ''standard'', ft_flag = 3, tie_index_dir = ''dir'',
                    fulltext_segment_update_ts = 7,
                    index_by_segment_snapshot = index_by_segment0\<rparr>)],
             GetColumnIdByName = (\<lambda>name. 2)\<rparr>"

definition cache0 :: TableIndexReaderCache where
  "cache0 = \<lparr>first_known_update_ts = 0, last_known_update_ts = 0, cache_ts = 0,
             cache_column_ts = Map.empty, cache_column_readers = None, column2analyzer = None\<rparr>"

definition store0 :: Store where
  "store0 = \<lparr>reader_maps = Map.empty, analyzer_maps = Map.empty, readers = Map.empty,
             memory_pools = [], next_ptr = 10\<rparr>"

definition cache1 :: TableIndexReaderCache where
  "cache1 = \<lparr>first_known_update_ts = - 1, last_known_update_ts = 0, cache_ts = 0,
             cache_column_ts = [2 \<mapsto> 7], cache_column_readers = Some 11,
             column2analyzer = Some 12\<rparr>"

definition store1 :: Store where
  "store1 = \<lparr>reader_maps = [11 \<mapsto> [2 \<mapsto> 13]],
             analyzer_maps = [12 \<mapsto> [''text'' \<mapsto> ''standard'']],
             readers = [13 \<mapsto> Open 3 ''dir'' index_by_segment0 new_ColumnIndexReader],
             memory_pools = [10], next_ptr = 14\<rparr>"

section \<open>Properties of the flush loop\<close>

lemma processed_map_Some: "processed (map Some es) = es"
  by (induction es) simp_all

lemma sint_eq_length:
  fixes x :: "32 word"
  assumes "int n \<le> sint x" and "x = word_of_nat n"
  shows "sint x = int n"
proof -
  have "sint x < 2 ^ 31"
    using sint_lt [of x] by simp
  with assms(1) have n: "int n < 2 ^ 31"
    by linarith
  have "(word_of_nat n :: 32 word) = word_of_int (int n)"
    by simp
  then have "sint x = sint (word_of_int (int n) :: 32 word)"
    using assms(2) by (simp only:)
  also have "\<dots> = signed_take_bit 31 (int n)"
    by (simp only: sint_sbintrunc') simp
  also have "\<dots> = int n"
    by (rule signed_take_bit_int_eq_self) (use n in simp_all)
  finally show ?thesis .
qed


lemma Flush_write_Inr:
  "Flush_write G W batch s = Inr s' \<Longrightarrow>
     (\<forall>e\<in>set (processed batch). cmds e \<noteq> [] \<and> sint (G e) = int (length (W e))) \<and>
     ofs_pending s' = ofs_pending s @ concat (map W (processed batch)) \<and>
     trace s' = trace s @ map WriteEv (processed batch) \<and>
     running s' = (running s \<and> None \<notin> set batch) \<and>
     disk s' = disk s \<and> txns s' = txns s \<and> flush_option s' = flush_option s"
proof (induction G W batch s rule: Flush_write.induct)
  case (1 G W s)
  then show ?case by simp
next
  case (2 G W rest s)
  then show ?case by auto
next
  case (3 G W entry rest s)
  let ?s1 = "(ofs_write entry (W entry) s)
               \<lparr>max_commit_ts := commit_ts entry,
                 wal_size := wal_size s + scast (word_of_nat (length (W entry)) :: 32 word)\<rparr>"
  from "3.prems" have c: "cmds entry \<noteq> []" and n: "\<not> sint (G entry) < 0"
    and b: "\<not> int (length (W entry)) > sint (G entry)"
    and e: "G entry = word_of_nat (length (W entry))"
    and r: "Flush_write G W rest ?s1 = Inr s'"
    by (auto simp: Let_def split: if_splits)
  from b e have sz: "sint (G entry) = int (length (W entry))"
    by (intro sint_eq_length) simp_all
  from e have e': "\<not> G entry \<noteq> word_of_nat (length (W entry))"
    by simp
  from "3.IH" [OF c refl n refl b refl e' r]
  have "(\<forall>e\<in>set (processed rest). cmds e \<noteq> [] \<and> sint (G e) = int (length (W e))) \<and>
     ofs_pending s' = ofs_pending ?s1 @ concat (map W (processed rest)) \<and>
     trace s' = trace ?s1 @ map WriteEv (processed rest) \<and>
     running s' = (running ?s1 \<and> None \<notin> set rest) \<and>
     disk s' = disk ?s1 \<and> txns s' = txns ?s1 \<and> flush_option s' = flush_option ?s1" .
  with c sz show ?case
    by (simp add: ofs_write_def)
qed


lemma Flush_commit_Some:
  "\<exists>s'. Flush_commit (map Some es) s = Inr s' \<and>
     trace s' = trace s @ map CommitBottomEv (filter (\<lambda>t. t \<in> set (txns s)) (map txn_id es)) \<and>
     s' = s\<lparr>trace := trace s'\<rparr>"
proof (induction es arbitrary: s)
  case Nil
  then show ?case by simp
next
  case (Cons a es)
  let ?s1 = "if txn_id a \<in> set (txns s) then s\<lparr>trace := trace s @ [CommitBottomEv (txn_id a)]\<rparr> else s"
  from Cons.IH [of ?s1] obtain s' where
    r: "Flush_commit (map Some es) ?s1 = Inr s'"
    and t: "trace s' = trace ?s1 @ map CommitBottomEv (filter (\<lambda>t. t \<in> set (txns ?s1)) (map txn_id es))"
    and e: "s' = ?s1\<lparr>trace := trace s'\<rparr>"
    by blast
  have "Flush_commit (map Some (a # es)) s = Inr s'"
    using r by simp
  moreover have "trace s' = trace s @ map CommitBottomEv (filter (\<lambda>t. t \<in> set (txns s)) (map txn_id (a # es)))"
    using t by simp
  moreover have "s' = s\<lparr>trace := trace s'\<rparr>"
  proof -
    have "?s1\<lparr>trace := trace s'\<rparr> = s\<lparr>trace := trace s'\<rparr>" by simp
    with e show ?thesis by metis
  qed
  ultimately show ?case by blast
qed

lemma Flush_post_trace:
  "\<exists>post. trace (Flush_trigger (Flush_rotate s)) = trace s @ post \<and>
     (\<forall>ev\<in>set post. (\<exists>ts. ev = SwapWalFileEv ts) \<or> ev = SubmitCheckpointEv False)"
  by (auto simp: Flush_trigger_def Flush_rotate_def TrySubmitCheckpointTask_def SwapWalFile_def Let_def)




text \<open>
  C2. In a turn of the flush loop on a batch of entries (none of them the terminate
  entry), all entries are written first, in the order of the batch, then the stream
  is flushed once, and only then \<^verbatim>\<open>CommitBottom\<close> is called, one transaction after
  the other in the order their entries were written, for every entry whose
  transaction the transaction manager still knows. What follows in the turn is
  rotation and checkpoint triggering only.
\<close>

theorem Flush_batch_commit_after_durable_write:
  assumes run: "running s" and ne: "es \<noteq> []"
    and res: "Flush_batch G W (map Some es) s = Inr s'"
  shows "\<exists>post. trace s' = trace s @ map WriteEv es @ [FlushEv] @
            map CommitBottomEv (filter (\<lambda>t. t \<in> set (txns s)) (map txn_id es)) @ post \<and>
          (\<forall>ev\<in>set post. (\<exists>ts. ev = SwapWalFileEv ts) \<or> ev = SubmitCheckpointEv False)"
proof -
  from res ne obtain s1 where w: "Flush_write G W (map Some es) s = Inr s1"
    by (auto simp: Flush_batch_def split: sum.splits if_splits)
  from Flush_write_Inr [OF w] run
  have t1: "trace s1 = trace s @ map WriteEv es" and r1: "running s1" and x1: "txns s1 = txns s"
    by (auto simp: processed_map_Some)
  obtain s2 where c: "Flush_commit (map Some es) (Flush_sync s1) = Inr s2"
    and t2: "trace s2 = trace (Flush_sync s1) @
               map CommitBottomEv (filter (\<lambda>t. t \<in> set (txns (Flush_sync s1))) (map txn_id es))"
    using Flush_commit_Some [of es "Flush_sync s1"] by blast
  have fs: "trace (Flush_sync s1) = trace s1 @ [FlushEv]" "txns (Flush_sync s1) = txns s1"
    by (simp_all add: Flush_sync_def ofs_flush_def split: FlushOption.splits)
  from res ne w r1 c have s': "s' = Flush_trigger (Flush_rotate s2)"
    by (simp add: Flush_batch_def)
  from Flush_post_trace [of s2] obtain post where
    "trace s' = trace s2 @ post"
    "\<forall>ev\<in>set post. (\<exists>ts. ev = SwapWalFileEv ts) \<or> ev = SubmitCheckpointEv False"
    unfolding s' by blast
  then show ?thesis using t1 t2 fs x1 by auto
qed

theorem Flush_batch_commit_after_durable_write_witness:
  "running wm0 \<and> [entry1, entry2] \<noteq> [] \<and>
   Flush_batch G0 W0 (map Some [entry1, entry2]) (wm0\<lparr>txns := [2]\<rparr>) =
     Inr (wm0\<lparr>disk := \<lparr>wal_log = [1, 7, 7, 2, 7, 7], wal_rolled = [], catalog_files = []\<rparr>,
              max_commit_ts := 11, wal_size := 6, txns := [2],
              trace := [WriteEv entry1, WriteEv entry2, FlushEv, CommitBottomEv 2]\<rparr>)"
  using Flush_batch_commit_after_durable_write [of "wm0\<lparr>txns := [2]\<rparr>" "[entry1, entry2]" G0 W0
      "wm0\<lparr>disk := \<lparr>wal_log = [1, 7, 7, 2, 7, 7], wal_rolled = [], catalog_files = []\<rparr>,
              max_commit_ts := 11, wal_size := 6, txns := [2],
              trace := [WriteEv entry1, WriteEv entry2, FlushEv, CommitBottomEv 2]\<rparr>"]
  by (simp add: Flush_batch_def Flush_sync_def ofs_flush_def Flush_rotate_def Flush_trigger_def
      G0_def W0_def entry1_def entry2_def wm0_def ofs_write_def)

text \<open>
  C7. Under \<^verbatim>\<open>FlushOption::kOnlyWrite\<close> the flush loop calls \<^verbatim>\<open>ofs_.flush()\<close>
  after writing a batch, as it does under \<^verbatim>\<open>kFlushAtOnce\<close>: the bytes of the
  batch reach \<^verbatim>\<open>wal.log\<close> and the trace holds the flush between the write and the
  commit.
\<close>

theorem Flush_batch_OnlyWrite_flushes:
  "Flush_batch G0 W0 [Some entry1] (wm0\<lparr>flush_option := kOnlyWrite\<rparr>) =
     Inr (wm0\<lparr>disk := \<lparr>wal_log = [1, 7, 7], wal_rolled = [], catalog_files = []\<rparr>,
              max_commit_ts := 10, wal_size := 3, flush_option := kOnlyWrite,
              trace := [WriteEv entry1, FlushEv, CommitBottomEv 1]\<rparr>) \<and>
   Flush_sync (wm0\<lparr>flush_option := kOnlyWrite, ofs_pending := [1, 7, 7]\<rparr>) =
     Flush_sync (wm0\<lparr>flush_option := kFlushAtOnce, ofs_pending := [1, 7, 7]\<rparr>)
       \<lparr>flush_option := kOnlyWrite\<rparr>"
  by (simp add: Flush_batch_def Flush_sync_def ofs_flush_def Flush_rotate_def Flush_trigger_def
      G0_def W0_def entry1_def wm0_def ofs_write_def)

subsection \<open>What the flush thread writes comes from the queue\<close>

lemma Flush_write_from_batch:
  "written (state_of (Flush_write G W b s)) \<subseteq> written s \<union> {x. Some x \<in> set b} \<and>
   blocking_queue (state_of (Flush_write G W b s)) = blocking_queue s"
proof (induction G W b s rule: Flush_write.induct)
  case (1 G W s)
  then show ?case by simp
next
  case (2 G W rest s)
  then show ?case by (simp add: written_def)
next
  case (3 G W entry rest s)
  then show ?case
    by (auto simp: Let_def ofs_write_def written_def)
qed

lemma Flush_commit_writes_nothing:
  "written (state_of (Flush_commit b s)) = written s \<and>
   blocking_queue (state_of (Flush_commit b s)) = blocking_queue s"
proof (induction b s rule: Flush_commit.induct)
  case (1 s)
  then show ?case by simp
next
  case (2 rest s)
  then show ?case by simp
next
  case (3 entry rest s)
  then show ?case by (simp add: written_def)
qed

lemma Flush_tail_writes_nothing:
  "written (Flush_sync s) = written s" "blocking_queue (Flush_sync s) = blocking_queue s"
  "written (Flush_trigger (Flush_rotate s)) = written s"
  "blocking_queue (Flush_trigger (Flush_rotate s)) = blocking_queue s"
  by (auto simp: written_def Flush_sync_def ofs_flush_def Flush_trigger_def Flush_rotate_def
      TrySubmitCheckpointTask_def SwapWalFile_def Let_def split: FlushOption.splits)

lemma Flush_batch_from_batch:
  "written (state_of (Flush_batch G W b s)) \<subseteq> written s \<union> {x. Some x \<in> set b} \<and>
   blocking_queue (state_of (Flush_batch G W b s)) = blocking_queue s"
proof (cases "Flush_write G W b s")
  case (Inl a)
  with Flush_write_from_batch [of G W b s] show ?thesis
    by (cases a) (simp add: Flush_batch_def)
next
  case (Inr s1)
  note w = Flush_write_from_batch [of G W b s, unfolded Inr, simplified]
  show ?thesis
  proof (cases "Flush_commit b (Flush_sync s1)")
    case (Inl a)
    with Flush_commit_writes_nothing [of b "Flush_sync s1"] w Inr show ?thesis
      by (cases a) (auto simp: Flush_batch_def Flush_tail_writes_nothing)
  next
    case c: (Inr s2)
    with Flush_commit_writes_nothing [of b "Flush_sync s1"] w Inr show ?thesis
      by (auto simp: Flush_batch_def Flush_tail_writes_nothing)
  qed
qed

lemma Flush_step_from_queue:
  "written (state_of (Flush_step G W s)) \<union> queued (state_of (Flush_step G W s)) \<subseteq>
     written s \<union> queued s"
proof (cases "flush_thread s = AtDequeue \<and> blocking_queue s \<noteq> []")
  case False
  then show ?thesis
    by (cases "flush_thread s") (auto simp: Flush_step_def written_def queued_def)
next
  case True
  let ?b = "map fst (blocking_queue s)"
  let ?s1 = "s\<lparr>blocking_queue := []\<rparr>"
  from Flush_batch_from_batch [of G W ?b ?s1]
  have w: "written (state_of (Flush_batch G W ?b ?s1)) \<subseteq> written s \<union> queued s"
    and q: "blocking_queue (state_of (Flush_batch G W ?b ?s1)) = []"
    by (auto simp: written_def queued_def)
  show ?thesis
  proof (cases "Flush_batch G W ?b ?s1")
    case (Inl a)
    with w q True show ?thesis
      by (cases a) (auto simp: Flush_step_def DequeueBulk_def queued_def)
  next
    case (Inr s2)
    with w q True show ?thesis
      by (auto simp: Flush_step_def DequeueBulk_def queued_def written_def)
  qed
qed

lemma step_from_queue:
  "written (state_of (step G W a s)) \<union> queued (state_of (step G W a s)) \<subseteq>
     written s \<union> queued s \<union> {x. \<exists>t. a = CallPutEntry x t}"
proof (cases a)
  case FlushStep
  with Flush_step_from_queue [of G W s] show ?thesis by auto
qed (auto simp: written_def queued_def Start_def ofs_close_def PutEntry_def Enqueue_def
      Stop_begin_def Stop_join_def)

lemma run_from_queue:
  "written (state_of (run G W acts s)) \<union> queued (state_of (run G W acts s)) \<subseteq>
     written s \<union> queued s \<union> {x. \<exists>t. CallPutEntry x t \<in> set acts}"
proof (induction acts arbitrary: s)
  case Nil
  then show ?case by simp
next
  case (Cons a acts)
  show ?case
  proof (cases "step G W a s")
    case (Inl e)
    with step_from_queue [of G W a s] show ?thesis
      by (cases e) auto
  next
    case (Inr s1)
    with step_from_queue [of G W a s] Cons.IH [of s1] show ?thesis
      by auto blast+
  qed
qed

text \<open>
  C9. When the manager is not running, a call of \<^verbatim>\<open>PutEntry\<close> returns normally and
  leaves the manager as it was: nothing is enqueued and no failure is reported (the
  function is \<^verbatim>\<open>void\<close> and raises nothing). The entry is then never logged on
  account of this call: whatever calls of \<^verbatim>\<open>Start\<close>, \<^verbatim>\<open>Stop\<close> and \<^verbatim>\<open>PutEntry\<close>
  and steps of the flush thread follow, an entry that was not written and not in the
  queue before, and that no later call of \<^verbatim>\<open>PutEntry\<close> hands in again, is never
  given to \<^verbatim>\<open>ofs_.write\<close>.
\<close>

theorem PutEntry_not_running_never_logged:
  assumes "\<not> running s"
  shows "step G W (CallPutEntry entry txn) s = Inr s \<and>
         blocking_queue (PutEntry entry txn s) = blocking_queue s \<and>
         (WriteEv entry \<notin> set (trace s) \<and>
          (\<forall>t. (Some entry, t) \<notin> set (blocking_queue s)) \<and>
          (\<forall>t. CallPutEntry entry t \<notin> set acts) \<longrightarrow>
            WriteEv entry \<notin> set (trace (state_of (run G W (CallPutEntry entry txn # acts) s))))"
proof -
  from assms have p: "PutEntry entry txn s = s"
    by (simp add: PutEntry_def)
  have never: "WriteEv entry \<notin> set (trace (state_of (run G W (CallPutEntry entry txn # acts) s)))"
    if w: "WriteEv entry \<notin> set (trace s)"
      and q: "\<forall>t. (Some entry, t) \<notin> set (blocking_queue s)"
      and a: "\<forall>t. CallPutEntry entry t \<notin> set acts"
  proof -
    from w have "entry \<notin> written s"
      by (simp add: written_def)
    moreover from q have "entry \<notin> queued s"
      by (auto simp: queued_def)
    moreover from a have "entry \<notin> {x. \<exists>t. CallPutEntry x t \<in> set acts}"
      by simp
    ultimately have "entry \<notin> written (state_of (run G W acts s))"
      using run_from_queue [of G W acts s] by blast
    then show ?thesis
      using p by (simp add: written_def)
  qed
  from p never show ?thesis by simp
qed

theorem PutEntry_not_running_never_logged_witness:
  "\<not> running wm_stopped \<and> trace wm_stopped = [] \<and> blocking_queue wm_stopped = [] \<and>
   step G0 W0 (CallPutEntry entry1 1) wm_stopped = Inr wm_stopped \<and>
   run G0 W0 [CallPutEntry entry1 1, CallStart, FlushStep, CallPutEntry entry2 2, FlushStep,
              FlushStep, CallStopBegin, FlushStep, CallStopJoin] wm_stopped =
     Inr (wm_stopped\<lparr>disk := \<lparr>wal_log = [2, 7, 7], wal_rolled = [], catalog_files = []\<rparr>,
               max_commit_ts := 11, wal_size := 3, flush_thread := Ended,
               trace := [WriteEv entry2, FlushEv, CommitBottomEv 2]\<rparr>) \<and>
   run G0 W0 [CallStart, CallPutEntry entry1 1, FlushStep, FlushStep] wm_stopped =
     Inr (wm_stopped\<lparr>running := True,
               disk := \<lparr>wal_log = [1, 7, 7], wal_rolled = [], catalog_files = []\<rparr>,
               max_commit_ts := 10, wal_size := 3, flush_thread := AtLoopHead,
               trace := [WriteEv entry1, FlushEv, CommitBottomEv 1]\<rparr>)"
proof -
  have e: "entry1 \<noteq> entry2"
    by (simp add: entry1_def entry2_def)
  have r1: "run G0 W0 [CallPutEntry entry1 1, CallStart, FlushStep, CallPutEntry entry2 2, FlushStep,
              FlushStep, CallStopBegin, FlushStep, CallStopJoin] wm_stopped =
     Inr (wm_stopped\<lparr>disk := \<lparr>wal_log = [2, 7, 7], wal_rolled = [], catalog_files = []\<rparr>,
               max_commit_ts := 11, wal_size := 3, flush_thread := Ended,
               trace := [WriteEv entry2, FlushEv, CommitBottomEv 2]\<rparr>)"
    by (simp add: wm_stopped_def wm0_def PutEntry_def Enqueue_def DequeueBulk_def Start_def
        Stop_begin_def Stop_join_def ofs_close_def Flush_step_def Flush_batch_def Flush_sync_def
        ofs_flush_def Flush_rotate_def Flush_trigger_def G0_def W0_def entry1_def entry2_def
        ofs_write_def)
  have r2: "run G0 W0 [CallStart, CallPutEntry entry1 1, FlushStep, FlushStep] wm_stopped =
     Inr (wm_stopped\<lparr>running := True,
               disk := \<lparr>wal_log = [1, 7, 7], wal_rolled = [], catalog_files = []\<rparr>,
               max_commit_ts := 10, wal_size := 3, flush_thread := AtLoopHead,
               trace := [WriteEv entry1, FlushEv, CommitBottomEv 1]\<rparr>)"
    by (simp add: wm_stopped_def wm0_def PutEntry_def Enqueue_def DequeueBulk_def Start_def
        ofs_close_def Flush_step_def Flush_batch_def Flush_sync_def
        ofs_flush_def Flush_rotate_def Flush_trigger_def G0_def W0_def entry1_def
        ofs_write_def)
  have s0: "\<not> running wm_stopped" "trace wm_stopped = []" "blocking_queue wm_stopped = []"
    by (simp_all add: wm_stopped_def wm0_def)
  from PutEntry_not_running_never_logged [OF s0(1), of G0 W0 entry1 1
      "[CallStart, FlushStep, CallPutEntry entry2 2, FlushStep, FlushStep, CallStopBegin,
        FlushStep, CallStopJoin]"]
  have p: "step G0 W0 (CallPutEntry entry1 1) wm_stopped = Inr wm_stopped"
    by blast
  from s0 p r1 r2 show ?thesis by blast
qed

section \<open>Properties of checkpointing\<close>

text \<open>
  C5, as the code has it. When the checks of \<^verbatim>\<open>CheckpointInner\<close> pass and
  \<^verbatim>\<open>Txn::Checkpoint\<close> succeeds, \<^verbatim>\<open>last_ckp_ts_\<close> and \<^verbatim>\<open>last_ckp_wal_size_\<close>
  are updated and the rolled log files with \<^verbatim>\<open>max_commit_ts\<close> up to the new
  checkpoint timestamp are recycled, for a delta checkpoint as for a full one. Only a
  full checkpoint also updates \<^verbatim>\<open>last_full_ckp_ts_\<close> and recycles catalog files; a
  delta checkpoint leaves \<^verbatim>\<open>last_full_ckp_ts_\<close> and the catalog files as they are.
\<close>

theorem CheckpointInner_success:
  assumes ok: "txn_Checkpoint ts is_full (disk s) = (CkpDone, d)"
    and g: "Checkpoint_guard is_full ts s = None"
  shows "\<exists>s'. CheckpointInner txn_Checkpoint is_full ts wal_sz s = Inr s' \<and>
         last_ckp_ts s' = ts \<and> last_ckp_wal_size s' = wal_sz \<and>
         wal_rolled (disk s') = filter (\<lambda>f. \<not> fst f \<le> ts) (wal_rolled d) \<and>
         (if is_full
          then last_full_ckp_ts s' = ts \<and>
               catalog_files (disk s') = filter (\<lambda>f. \<not> snd f \<le> ts) (catalog_files d)
          else last_full_ckp_ts s' = last_full_ckp_ts s \<and>
               catalog_files (disk s') = catalog_files d)"
  using ok g
  by (simp add: CheckpointInner_def Checkpoint_try_def Checkpoint_finish_def
      RecycleWalFile_def RecycleCatalogFile_def Let_def)

theorem CheckpointInner_success_witness:
  "ckp_ok 10 False (disk wmc) = (CkpDone, disk wmc) \<and>
   Checkpoint_guard False 10 wmc = None \<and>
   CheckpointInner ckp_ok False 10 100 wmc =
     Inr (wmc\<lparr>disk := \<lparr>wal_log = [2, 7, 7], wal_rolled = [],
                         catalog_files = [(FULL, 2), (DELTA, 3)]\<rparr>,
              last_ckp_wal_size := 100, checkpoint_in_progress := False, last_ckp_ts := 10\<rparr>) \<and>
   Checkpoint_guard True 10 wmc = None \<and>
   CheckpointInner ckp_ok True 10 100 wmc =
     Inr (wmc\<lparr>disk := \<lparr>wal_log = [2, 7, 7], wal_rolled = [], catalog_files = []\<rparr>,
              last_ckp_wal_size := 100, checkpoint_in_progress := False, last_ckp_ts := 10,
              last_full_ckp_ts := 10\<rparr>)"
  using CheckpointInner_success [of ckp_ok 10 False wmc "disk wmc" 100]
    CheckpointInner_success [of ckp_ok 10 True wmc "disk wmc" 100]
  by (simp add: ckp_ok_def wmc_def wm0_def UNCOMMIT_TS_def Checkpoint_guard_def
      CheckpointInner_def Checkpoint_try_def Checkpoint_finish_def
      RecycleWalFile_def RecycleCatalogFile_def)

text \<open>
  A delta checkpoint at timestamp 10 on a manager that has the rolled log file
  \<^verbatim>\<open>wal.log.5\<close>: the file is gone afterwards.
\<close>

theorem CheckpointInner_delta_recycles_wal:
  "wal_rolled (disk wmc) = [(5, [1, 7, 7])] \<and>
   CheckpointInner ckp_ok False 10 100 wmc =
     Inr (wmc\<lparr>disk := \<lparr>wal_log = [2, 7, 7], wal_rolled = [],
                         catalog_files = [(FULL, 2), (DELTA, 3)]\<rparr>,
              last_ckp_wal_size := 100, checkpoint_in_progress := False, last_ckp_ts := 10\<rparr>)"
  by (simp add: ckp_ok_def wmc_def wm0_def UNCOMMIT_TS_def Checkpoint_guard_def
      CheckpointInner_def Checkpoint_try_def Checkpoint_finish_def
      RecycleWalFile_def RecycleCatalogFile_def)

text \<open>
  C6, as the code has it. A delta checkpoint whose target timestamp is below
  \<^verbatim>\<open>last_ckp_ts_\<close> raises the unrecoverable error; so does a full checkpoint, when
  \<^verbatim>\<open>last_ckp_ts_\<close> is not \<^verbatim>\<open>UNCOMMIT_TS\<close> and the target is not
  \<^verbatim>\<open>last_full_ckp_ts_\<close>. Equality is no error: a delta checkpoint at
  \<^verbatim>\<open>last_ckp_ts_\<close> and a full checkpoint at \<^verbatim>\<open>last_full_ckp_ts_\<close> are skipped,
  nothing but the in-progress flag changing.
\<close>

theorem CheckpointInner_ts_check:
  "(ts < last_ckp_ts s \<longrightarrow>
      (\<exists>msg. CheckpointInner f False ts w s =
         Inl (UnrecoverableError msg, s\<lparr>checkpoint_in_progress := False\<rparr>))) \<and>
   (ts = last_ckp_ts s \<longrightarrow>
      CheckpointInner f False ts w s = Inr (s\<lparr>checkpoint_in_progress := False\<rparr>)) \<and>
   (ts < last_ckp_ts s \<and> last_ckp_ts s \<noteq> UNCOMMIT_TS \<and> ts \<noteq> last_full_ckp_ts s \<longrightarrow>
      (\<exists>msg. CheckpointInner f True ts w s =
         Inl (UnrecoverableError msg, s\<lparr>checkpoint_in_progress := False\<rparr>))) \<and>
   (ts = last_full_ckp_ts s \<longrightarrow>
      CheckpointInner f True ts w s = Inr (s\<lparr>checkpoint_in_progress := False\<rparr>))"
  by (auto simp: CheckpointInner_def Checkpoint_guard_def)

theorem CheckpointInner_ts_check_witness:
  "(1 :: TxnTimeStamp) < last_ckp_ts wmc \<and> last_ckp_ts wmc \<noteq> UNCOMMIT_TS \<and>
   (1 :: TxnTimeStamp) \<noteq> last_full_ckp_ts wmc \<and>
   CheckpointInner ckp_ok False 1 100 wmc =
     Inl (UnrecoverableError ''WalManager::UpdateLastMaxCommitTS last_ckp_ts_ >= max_commit_ts'',
          wmc\<lparr>checkpoint_in_progress := False\<rparr>) \<and>
   CheckpointInner ckp_ok True 1 100 wmc =
     Inl (UnrecoverableError ''WalManager::UpdateLastFullMaxCommitTS last_full_ckp_ts_ >= max_commit_ts'',
          wmc\<lparr>checkpoint_in_progress := False\<rparr>) \<and>
   CheckpointInner ckp_ok False (last_ckp_ts wmc) 100 wmc = Inr (wmc\<lparr>checkpoint_in_progress := False\<rparr>) \<and>
   CheckpointInner ckp_ok True (last_full_ckp_ts wmc) 100 wmc = Inr (wmc\<lparr>checkpoint_in_progress := False\<rparr>)"
  using CheckpointInner_ts_check [of 1 wmc ckp_ok 100]
    CheckpointInner_ts_check [of "last_ckp_ts wmc" wmc ckp_ok 100]
    CheckpointInner_ts_check [of "last_full_ckp_ts wmc" wmc ckp_ok 100]
  by (simp add: wmc_def wm0_def UNCOMMIT_TS_def Checkpoint_guard_def CheckpointInner_def)

text \<open>
  A delta checkpoint whose target equals \<^verbatim>\<open>last_ckp_ts_\<close> (both 3) returns
  normally: no error is raised.
\<close>

theorem CheckpointInner_equal_ts_is_skipped:
  "last_ckp_ts wmc = 3 \<and>
   CheckpointInner ckp_ok False 3 100 wmc = Inr (wmc\<lparr>checkpoint_in_progress := False\<rparr>)"
  by (simp add: wmc_def wm0_def Checkpoint_guard_def CheckpointInner_def)

section \<open>Properties of recovery\<close>

lemma find_checkpoint_None:
  "(\<forall>c. CHECKPOINT c \<notin> set cs) \<Longrightarrow> find_checkpoint cs = None"
  by (induction cs rule: find_checkpoint.induct) auto

lemma Replay_phase1_no_checkpoint:
  "\<forall>e\<in>set it. find_checkpoint (cmds e) = None \<Longrightarrow>
     Replay_phase1 env it l = (l\<lparr>rl_replay_entries := rl_replay_entries l @ it\<rparr>, [])"
  by (induction it arbitrary: l) (simp_all add: IsCheckPoint_def)

lemma sort_key_Nil_iff: "sort_key f xs = [] \<longleftrightarrow> xs = []"
  by (metis length_sort length_0_conv)

lemma Replay_wal_list_empty:
  "Replay_wal_list env = [] \<longleftrightarrow> ParseWalFilenames env = (None, [])"
  by (auto simp: Replay_wal_list_def sort_key_Nil_iff split: prod.splits option.splits)

text \<open>
  C3. When the WAL directory holds no WAL file, \<^verbatim>\<open>ReplayWalFile\<close> initializes a new
  catalog and returns 0. When it holds WAL files and no entry that the iterator
  yields contains a \<^verbatim>\<open>Checkpoint\<close> command, it raises the unrecoverable error
  \<^verbatim>\<open>No checkpoint found in wal\<close>.
\<close>

theorem ReplayWalFile_no_checkpoint:
  "(ParseWalFilenames env = (None, []) \<longrightarrow>
      ReplayWalFile env s =
        Inr \<lparr>rp_return = 0, rp_catalog = InitNewCatalog env, rp_next_txn_id = None,
             rp_manager = s\<rparr>) \<and>
   (ParseWalFilenames env \<noteq> (None, []) \<and>
    (\<forall>e\<in>set (WalListIterator env (Replay_wal_list env)). \<forall>c. CHECKPOINT c \<notin> set (cmds e)) \<longrightarrow>
      ReplayWalFile env s = Inl (UnrecoverableError ''No checkpoint found in wal''))"
proof -
  have a: "ReplayWalFile env s =
        Inr \<lparr>rp_return = 0, rp_catalog = InitNewCatalog env, rp_next_txn_id = None,
             rp_manager = s\<rparr>" if "ParseWalFilenames env = (None, [])"
    using that Replay_wal_list_empty [of env] by (simp add: ReplayWalFile_def)
  have b: "ReplayWalFile env s = Inl (UnrecoverableError ''No checkpoint found in wal'')"
    if ne: "ParseWalFilenames env \<noteq> (None, [])"
      and nc: "\<forall>e\<in>set (WalListIterator env (Replay_wal_list env)). \<forall>c. CHECKPOINT c \<notin> set (cmds e)"
  proof -
    from ne have wl: "Replay_wal_list env \<noteq> []"
      by (simp add: Replay_wal_list_empty)
    from nc have "\<forall>e\<in>set (WalListIterator env (Replay_wal_list env)). find_checkpoint (cmds e) = None"
      by (simp add: find_checkpoint_None)
    then show ?thesis
      using wl by (simp add: ReplayWalFile_def Replay_phase1_no_checkpoint)
  qed
  from a b show ?thesis by blast
qed

theorem ReplayWalFile_no_checkpoint_witness:
  "ParseWalFilenames (env0\<lparr>ParseWalFilenames := (None, [])\<rparr>) = (None, []) \<and>
   ReplayWalFile (env0\<lparr>ParseWalFilenames := (None, [])\<rparr>) wm0 =
     Inr \<lparr>rp_return = 0, rp_catalog = Map.empty, rp_next_txn_id = None, rp_manager = wm0\<rparr> \<and>
   Replay_wal_list env0 = [''wal.log'', ''wal.log.5''] \<and>
   WalListIterator env0 (Replay_wal_list env0) = [entry2, entry1] \<and>
   cmds entry2 = [DROP_TABLE ''d'' ''t''] \<and> cmds entry1 = [DROP_DATABASE ''d''] \<and>
   ReplayWalFile env0 wm0 = Inl (UnrecoverableError ''No checkpoint found in wal'')"
  using ReplayWalFile_no_checkpoint [of "env0\<lparr>ParseWalFilenames := (None, [])\<rparr>" wm0]
    ReplayWalFile_no_checkpoint [of env0 wm0]
  by (simp add: env0_def entry1_def entry2_def Replay_wal_list_def)

lemma fold_AddColumnReplay:
  "fold (\<lambda>i be. AddColumnReplay (g i) i be) [0..<n] be0 =
     be0\<lparr>be_columns := (\<lambda>j. if j < n then Some (g j) else be_columns be0 j)\<rparr>"
proof (induction n)
  case 0
  then show ?case by simp
next
  case (Suc n)
  then show ?case by (auto simp: AddColumnReplay_def fun_eq_iff)
qed

lemma fold_AddBlockReplay:
  "fold (\<lambda>i se. AddBlockReplay (g i) i se) [0..<n] se0 =
     se0\<lparr>se_block_entries := (\<lambda>j. if j < n then Some (g j) else se_block_entries se0 j)\<rparr>"
proof (induction n)
  case 0
  then show ?case by simp
next
  case (Suc n)
  then show ?case by (auto simp: AddBlockReplay_def fun_eq_iff)
qed

lemma ReplayBlock_eq:
  "ReplayBlock bi i ts =
     \<lparr>be_block_id = i, be_row_count = bi_row_count bi, be_row_capacity = bi_row_capacity bi,
      be_min_row_ts = ts, be_max_row_ts = ts, be_commit_ts = ts, be_checkpoint_ts = ts,
      be_checkpoint_row_count = bi_row_count bi,
      be_columns = (\<lambda>j. if j < length (bi_outline_infos bi)
                        then Some \<lparr>bc_column_id = j,
                                   bc_next_outline_idx = fst (bi_outline_infos bi ! j),
                                   bc_last_chunk_offset = snd (bi_outline_infos bi ! j),
                                   bc_commit_ts = ts\<rparr>
                        else None)\<rparr>"
proof -
  let ?g = "\<lambda>c. NewReplayBlockColumnEntry c (fst (bi_outline_infos bi ! c))
                   (snd (bi_outline_infos bi ! c)) ts"
  have "ReplayBlock bi i ts =
          fold (\<lambda>c be. AddColumnReplay (?g c) c be) [0..<length (bi_outline_infos bi)]
            (NewReplayBlockEntry i (bi_row_count bi) (bi_row_capacity bi) ts ts ts ts (bi_row_count bi))"
    by (simp add: ReplayBlock_def case_prod_beta)
  then show ?thesis
    by (simp add: fold_AddColumnReplay NewReplayBlockEntry_def NewReplayBlockColumnEntry_def
        cong: if_cong)
qed

lemma ReplaySegment_eq:
  "ReplaySegment bits info txn ts =
     \<lparr>se_segment_id = si_segment_id info, se_status = kSealed,
      se_column_count = si_column_count info, se_row_count = si_row_count info,
      se_actual_row_count = si_actual_row_count info, se_row_capacity = si_row_capacity info,
      se_min_row_ts = ts, se_max_row_ts = ts, se_commit_ts = ts, se_deprecate_ts = UNCOMMIT_TS,
      se_begin_ts = 0, se_txn_id = txn,
      se_block_entries = (\<lambda>i. if i < length (si_block_infos info) mod 2 ^ bits
                              then Some (ReplayBlock (si_block_infos info ! i) i ts)
                              else None)\<rparr>"
proof -
  let ?g = "\<lambda>i. ReplayBlock (si_block_infos info ! i) i ts"
  have "ReplaySegment bits info txn ts =
          fold (\<lambda>i se. AddBlockReplay (?g i) i se) [0..<length (si_block_infos info) mod 2 ^ bits]
            (NewReplaySegmentEntry (si_segment_id info) kSealed (si_column_count info)
               (si_row_count info) (si_actual_row_count info) (si_row_capacity info)
               ts ts ts UNCOMMIT_TS 0 txn)"
    by (simp add: ReplaySegment_def)
  then show ?thesis
    by (simp add: fold_AddBlockReplay NewReplaySegmentEntry_def cong: if_cong)
qed

lemma Compact_new_segments_other:
  "sid \<notin> si_segment_id ` set infos \<Longrightarrow>
     te_segment_map (Compact_new_segments bits infos txn ts te) sid = te_segment_map te sid"
  by (induction infos arbitrary: te) (auto simp: AddSegmentReplayWalCompact_def ReplaySegment_eq)

lemma Compact_new_segments_installed:
  "distinct (map si_segment_id infos) \<Longrightarrow> info \<in> set infos \<Longrightarrow>
     te_segment_map (Compact_new_segments bits infos txn ts te) (si_segment_id info) =
       Some (ReplaySegment bits info txn ts)"
proof (induction infos arbitrary: te)
  case Nil
  then show ?case by simp
next
  case (Cons a infos)
  show ?case
  proof (cases "info = a")
    case True
    with Cons.prems have "si_segment_id a \<notin> si_segment_id ` set infos" by simp
    then show ?thesis
      using True
      by (simp add: Compact_new_segments_other AddSegmentReplayWalCompact_def ReplaySegment_eq)
  next
    case False
    with Cons show ?thesis by simp
  qed
qed

lemma Compact_deprecate_other:
  "Compact_deprecate dep ts te = Inr te' \<Longrightarrow> sid \<notin> set dep \<Longrightarrow>
     te_segment_map te' sid = te_segment_map te sid"
proof (induction dep arbitrary: te)
  case Nil
  then show ?case by simp
next
  case (Cons a dep)
  then show ?case
    by (auto simp: TrySetCompacting_def split: option.splits if_splits)
qed

text \<open>
  C4. The segment that \<^verbatim>\<open>ReplaySegment\<close> builds for a commit timestamp is
  \<^verbatim>\<open>Sealed\<close>, has \<^verbatim>\<open>min_row_ts\<close>, \<^verbatim>\<open>max_row_ts\<close> and \<^verbatim>\<open>commit_ts\<close> equal to
  that timestamp and \<^verbatim>\<open>deprecate_ts\<close> equal to \<^verbatim>\<open>UNCOMMIT_TS\<close>; when the number of
  recorded blocks fits \<^verbatim>\<open>BlockID\<close>, it has exactly one block per recorded block
  info, and each block has the recorded row count and capacity, the timestamp, and
  one block column per recorded outline info with the recorded next index and last
  offset. \<^verbatim>\<open>WalCmdImportReplay\<close> installs that segment in the table, and
  \<^verbatim>\<open>WalCmdCompactReplay\<close> installs it for every new segment info (ids distinct and
  not among the deprecated ones).
\<close>

theorem ReplaySegment_sealed_at_commit_ts:
  "(let seg = ReplaySegment bits info txn ts in
      se_segment_id seg = si_segment_id info \<and> se_status seg = kSealed \<and>
      se_min_row_ts seg = ts \<and> se_max_row_ts seg = ts \<and> se_commit_ts seg = ts \<and>
      se_deprecate_ts seg = UNCOMMIT_TS \<and>
      (length (si_block_infos info) < 2 ^ bits \<longrightarrow>
         (\<forall>i. se_block_entries seg i =
            (if i < length (si_block_infos info)
             then Some (ReplayBlock (si_block_infos info ! i) i ts) else None)))) \<and>
   (let blk = ReplayBlock bi b ts in
      be_block_id blk = b \<and> be_row_count blk = bi_row_count bi \<and>
      be_row_capacity blk = bi_row_capacity bi \<and>
      be_min_row_ts blk = ts \<and> be_max_row_ts blk = ts \<and> be_commit_ts blk = ts \<and>
      be_checkpoint_ts blk = ts \<and> be_checkpoint_row_count blk = bi_row_count bi \<and>
      (\<forall>j. be_columns blk j =
         (if j < length (bi_outline_infos bi)
          then Some \<lparr>bc_column_id = j,
                     bc_next_outline_idx = fst (bi_outline_infos bi ! j),
                     bc_last_chunk_offset = snd (bi_outline_infos bi ! j),
                     bc_commit_ts = ts\<rparr>
          else None))) \<and>
   (WalCmdImportReplay bits db tbl info txn ts cat = Inr cat' \<longrightarrow>
      (\<exists>te. cat' (db, tbl) = Some te \<and>
            te_segment_map te (si_segment_id info) = Some (ReplaySegment bits info txn ts))) \<and>
   (WalCmdCompactReplay bits db tbl infos dep txn ts cat = Inr cat'' \<and>
    distinct (map si_segment_id infos) \<and> info' \<in> set infos \<and> si_segment_id info' \<notin> set dep \<longrightarrow>
      (\<exists>te. cat'' (db, tbl) = Some te \<and>
            te_segment_map te (si_segment_id info') = Some (ReplaySegment bits info' txn ts)))"
proof -
  have a: "WalCmdImportReplay bits db tbl info txn ts cat = Inr cat' \<longrightarrow>
      (\<exists>te. cat' (db, tbl) = Some te \<and>
            te_segment_map te (si_segment_id info) = Some (ReplaySegment bits info txn ts))"
    by (auto simp: WalCmdImportReplay_def AddSegmentReplayWalImport_def ReplaySegment_eq Let_def
        split: option.splits)
  have b: "\<exists>te. cat'' (db, tbl) = Some te \<and>
            te_segment_map te (si_segment_id info') = Some (ReplaySegment bits info' txn ts)"
    if r: "WalCmdCompactReplay bits db tbl infos dep txn ts cat = Inr cat''"
      and d: "distinct (map si_segment_id infos)" and i: "info' \<in> set infos"
      and n: "si_segment_id info' \<notin> set dep"
  proof -
    from r obtain te0 te1 where t0: "cat (db, tbl) = Some te0"
      and t1: "Compact_deprecate dep ts (Compact_new_segments bits infos txn ts te0) = Inr te1"
      and c: "cat'' = cat((db, tbl) \<mapsto> te1)"
      by (auto simp: WalCmdCompactReplay_def split: option.splits sum.splits)
    from Compact_deprecate_other [OF t1 n] Compact_new_segments_installed [OF d i]
    have "te_segment_map te1 (si_segment_id info') = Some (ReplaySegment bits info' txn ts)"
      by simp
    with c show ?thesis by simp
  qed
  have c: "length (si_block_infos info) mod 2 ^ bits = length (si_block_infos info)"
    if "length (si_block_infos info) < 2 ^ bits"
    using that by simp
  show ?thesis
    using a b c by (simp add: ReplaySegment_eq ReplayBlock_eq Let_def)
qed

theorem ReplaySegment_sealed_at_commit_ts_witness:
  "length (si_block_infos seg_info0) < (2 :: nat) ^ 16 \<and>
   se_status (ReplaySegment 16 seg_info0 2 10) = kSealed \<and>
   se_min_row_ts (ReplaySegment 16 seg_info0 2 10) = 10 \<and>
   se_max_row_ts (ReplaySegment 16 seg_info0 2 10) = 10 \<and>
   se_commit_ts (ReplaySegment 16 seg_info0 2 10) = 10 \<and>
   se_deprecate_ts (ReplaySegment 16 seg_info0 2 10) = UNCOMMIT_TS \<and>
   se_block_entries (ReplaySegment 16 seg_info0 2 10) 0 =
     Some (ReplayBlock \<lparr>bi_row_count = 3, bi_row_capacity = 8192,
                        bi_outline_infos = [(1, 16), (0, 0)]\<rparr> 0 10) \<and>
   se_block_entries (ReplaySegment 16 seg_info0 2 10) 1 = None \<and>
   be_row_count (ReplayBlock (hd (si_block_infos seg_info0)) 0 10) = 3 \<and>
   be_columns (ReplayBlock (hd (si_block_infos seg_info0)) 0 10) 0 =
     Some \<lparr>bc_column_id = 0, bc_next_outline_idx = 1, bc_last_chunk_offset = 16,
           bc_commit_ts = 10\<rparr> \<and>
   be_columns (ReplayBlock (hd (si_block_infos seg_info0)) 0 10) 2 = None \<and>
   (case WalCmdImportReplay 16 ''db'' ''t'' seg_info0 2 10 cat0 of
      Inl e \<Rightarrow> None
    | Inr c \<Rightarrow> map_option (\<lambda>te. map_option se_status (te_segment_map te 7)) (c (''db'', ''t''))) =
     Some (Some kSealed) \<and>
   (case WalCmdCompactReplay 16 ''db'' ''t'' [seg_info0] [3] 2 10 cat0 of
      Inl e \<Rightarrow> None
    | Inr c \<Rightarrow> map_option (\<lambda>te. (map_option se_status (te_segment_map te 7),
                                  map_option se_status (te_segment_map te 3)))
                (c (''db'', ''t''))) =
     Some (Some kSealed, Some kDeprecated)"
  using ReplaySegment_sealed_at_commit_ts [of 16 seg_info0 2 10
      "hd (si_block_infos seg_info0)" 0 "''db''" "''t''" cat0
      "projr (WalCmdImportReplay 16 ''db'' ''t'' seg_info0 2 10 cat0)"
      "[seg_info0]" "[3]"
      "projr (WalCmdCompactReplay 16 ''db'' ''t'' [seg_info0] [3] 2 10 cat0)" seg_info0]
  by (simp add: seg_info0_def seg_info3_def cat0_def ReplaySegment_eq ReplayBlock_eq
      WalCmdImportReplay_def WalCmdCompactReplay_def AddSegmentReplayWalImport_def
      AddSegmentReplayWalCompact_def TrySetCompacting_def SetNoDelete_def SetDeprecated_def)


section \<open>Properties of the full-text index readers\<close>

lemma Open_segment_collects:
  "cir_base_names (Open_segment flag e r) = cir_base_names r @ segment_base_names e"
  "cir_base_row_ids (Open_segment flag e r) = cir_base_row_ids r @ segment_row_ids e"
proof -
  have f: "cir_base_names (fold (\<lambda>i r'. r'\<lparr>cir_segment_readers := cir_segment_readers r' @ [g r' i]\<rparr>) is r) = cir_base_names r \<and>
           cir_base_row_ids (fold (\<lambda>i r'. r'\<lparr>cir_segment_readers := cir_segment_readers r' @ [g r' i]\<rparr>) is r) = cir_base_row_ids r"
    for g "is"
    by (induction "is" arbitrary: r) simp_all
  let ?g = "\<lambda>r' i. DiskIndexSegmentReader (cir_index_dir r') (map fst (ft_posting_set e) ! i)
                      (map snd (ft_posting_set e) ! i) flag"
  show "cir_base_names (Open_segment flag e r) = cir_base_names r @ segment_base_names e"
    using f [of ?g]
    by (simp add: Open_segment_def GetFullTextIndexSnapshot_def segment_base_names_def Let_def
        split: option.splits)
  show "cir_base_row_ids (Open_segment flag e r) = cir_base_row_ids r @ segment_row_ids e"
    using f [of ?g]
    by (simp add: Open_segment_def GetFullTextIndexSnapshot_def segment_row_ids_def Let_def
        split: option.splits)
qed

lemma length_segment_row_ids: "length (segment_row_ids e) = length (segment_base_names e)"
  by (simp add: segment_row_ids_def segment_base_names_def split: option.splits)

lemma fold_Open_segment:
  "cir_base_names (fold (\<lambda>(sid, e) r'. Open_segment flag e r') es r) =
     cir_base_names r @ concat (map (\<lambda>(sid, e). segment_base_names e) es) \<and>
   cir_base_row_ids (fold (\<lambda>(sid, e) r'. Open_segment flag e r') es r) =
     cir_base_row_ids r @ concat (map (\<lambda>(sid, e). segment_row_ids e) es)"
  by (induction es arbitrary: r) (auto simp: Open_segment_collects)

lemma length_concat_segment_row_ids:
  "length (concat (map (\<lambda>(sid, e). segment_row_ids e) es)) =
   length (concat (map (\<lambda>(sid, e). segment_base_names e) es))"
  by (induction es) (auto simp: length_segment_row_ids)

text \<open>
  C10. After \<^verbatim>\<open>Open\<close> on a reader as the constructor made it, for every map of
  segment index entries (the empty one too), \<^verbatim>\<open>base_row_ids_\<close> has one element more
  than \<^verbatim>\<open>base_names_\<close>, its last element is \<^verbatim>\<open>INVALID_ROWID\<close>, and the elements
  ahead of it are the row ids of the segments, segment after segment in the order of
  the map's keys, which ascend strictly.
\<close>

theorem Open_base_row_ids_sentinel:
  assumes "cir_base_names r = []" and "cir_base_row_ids r = []"
  shows "length (cir_base_row_ids (Open flag index_dir m r)) =
           length (cir_base_names (Open flag index_dir m r)) + 1 \<and>
         last (cir_base_row_ids (Open flag index_dir m r)) = INVALID_ROWID \<and>
         butlast (cir_base_row_ids (Open flag index_dir m r)) =
           concat (map (\<lambda>(sid, e). segment_row_ids e) (RBT.entries m)) \<and>
         sorted (map fst (RBT.entries m)) \<and> distinct (map fst (RBT.entries m))"
  using assms
  by (simp add: Open_def Let_def fold_Open_segment length_concat_segment_row_ids
      RBT.sorted_entries RBT.distinct_entries)

theorem Open_base_row_ids_sentinel_witness:
  "cir_base_names new_ColumnIndexReader = [] \<and> cir_base_row_ids new_ColumnIndexReader = [] \<and>
   RBT.entries index_by_segment0 = [(2, seg_index2), (5, seg_index5)] \<and>
   cir_base_names (Open 3 ''dir'' index_by_segment0 new_ColumnIndexReader) =
     [''ft_2a'', ''ft_2b'', ''ft_5a'', ''ft_5m''] \<and>
   cir_base_row_ids (Open 3 ''dir'' index_by_segment0 new_ColumnIndexReader) =
     [200, 250, 500, 540, INVALID_ROWID] \<and>
   cir_base_names (Open 3 ''dir'' RBT.empty new_ColumnIndexReader) = [] \<and>
   cir_base_row_ids (Open 3 ''dir'' RBT.empty new_ColumnIndexReader) = [INVALID_ROWID]"
proof -
  have e: "RBT.entries index_by_segment0 = [(2, seg_index2), (5, seg_index5)]"
    by code_simp
  have e0: "RBT.entries (RBT.empty :: (SegmentID, SegmentIndexEntry) rbt) = []"
    by code_simp
  have n: "cir_base_names new_ColumnIndexReader = []" "cir_base_row_ids new_ColumnIndexReader = []"
    by (simp_all add: new_ColumnIndexReader_def)
  have names: "cir_base_names (Open 3 ''dir'' index_by_segment0 new_ColumnIndexReader) =
     [''ft_2a'', ''ft_2b'', ''ft_5a'', ''ft_5m'']"
    by (simp add: Open_def Let_def Open_segment_collects e n segment_base_names_def
        seg_index2_def seg_index5_def)
  from Open_base_row_ids_sentinel [OF n, of 3 "''dir''" index_by_segment0]
  have "last (cir_base_row_ids (Open 3 ''dir'' index_by_segment0 new_ColumnIndexReader)) = INVALID_ROWID"
    and "butlast (cir_base_row_ids (Open 3 ''dir'' index_by_segment0 new_ColumnIndexReader)) =
           [200, 250, 500, 540]"
    and "length (cir_base_row_ids (Open 3 ''dir'' index_by_segment0 new_ColumnIndexReader)) = 5"
    by (simp_all add: e names segment_row_ids_def seg_index2_def seg_index5_def)
  then have ids: "cir_base_row_ids (Open 3 ''dir'' index_by_segment0 new_ColumnIndexReader) =
     [200, 250, 500, 540, INVALID_ROWID]"
    by (metis append_butlast_last_id length_0_conv append_Cons append_Nil zero_neq_numeral)
  have empty: "cir_base_names (Open 3 ''dir'' RBT.empty new_ColumnIndexReader) = []"
    "cir_base_row_ids (Open 3 ''dir'' RBT.empty new_ColumnIndexReader) = [INVALID_ROWID]"
    by (simp_all add: Open_def Let_def e0 n)
  from n e names ids empty show ?thesis by blast
qed

text \<open>
  C8. When \<^verbatim>\<open>begin_ts\<close> is at least \<^verbatim>\<open>cache_ts_\<close> and below
  \<^verbatim>\<open>first_known_update_ts_\<close>, \<^verbatim>\<open>GetIndexReader\<close> returns a reader that holds the
  very pointers of the cache to the map of column readers and to the map of
  analyzers; the cache is as it was, and the store has gained the session pool and
  nothing else (no reader, no map is built). Otherwise, when the call returns, the
  reader holds pointers made in this call, to maps that are in the store; and when
  \<^verbatim>\<open>begin_ts\<close> is at least \<^verbatim>\<open>last_known_update_ts_\<close> the cache holds these pointers
  afterwards, with \<^verbatim>\<open>first_known_update_ts_\<close> the largest timestamp,
  \<^verbatim>\<open>last_known_update_ts_\<close> 0 and \<^verbatim>\<open>cache_ts_\<close> the former
  \<^verbatim>\<open>last_known_update_ts_\<close>, while else the cache is as it was.
\<close>

theorem GetIndexReader_paths:
  "(cache_ts c \<le> begin_ts \<and> begin_ts < first_known_update_ts c \<longrightarrow>
      GetIndexReader txn begin_ts table c st =
        Inr (\<lparr>ir_column_index_readers = cache_column_readers c,
              ir_column2analyzer = column2analyzer c,
              ir_session_pool = Some (next_ptr st)\<rparr>,
             c,
             st\<lparr>memory_pools := memory_pools st @ [next_ptr st], next_ptr := next_ptr st + 1\<rparr>)) \<and>
   (\<not> (cache_ts c \<le> begin_ts \<and> begin_ts < first_known_update_ts c) \<and>
    GetIndexReader txn begin_ts table c st = Inr (r, c', st') \<longrightarrow>
      ir_column_index_readers r = Some (next_ptr st + 1) \<and>
      ir_column2analyzer r = Some (next_ptr st + 2) \<and>
      reader_maps st' (next_ptr st + 1) \<noteq> None \<and>
      analyzer_maps st' (next_ptr st + 2) \<noteq> None \<and>
      (if last_known_update_ts c \<le> begin_ts
       then cache_column_readers c' = ir_column_index_readers r \<and>
            column2analyzer c' = ir_column2analyzer r \<and>
            first_known_update_ts c' = - 1 \<and> last_known_update_ts c' = 0 \<and>
            cache_ts c' = last_known_update_ts c
       else c' = c))"
  by (auto simp: GetIndexReader_def Let_def split: sum.splits if_splits)

theorem GetIndexReader_paths_witness:
  "\<not> (cache_ts cache0 \<le> 10 \<and> 10 < first_known_update_ts cache0) \<and>
   last_known_update_ts cache0 \<le> 10 \<and>
   GetIndexReader 1 10 table0 cache0 store0 =
     Inr (\<lparr>ir_column_index_readers = Some 11, ir_column2analyzer = Some 12,
           ir_session_pool = Some 10\<rparr>, cache1, store1) \<and>
   cache_column_readers cache1 = Some 11 \<and> column2analyzer cache1 = Some 12 \<and>
   first_known_update_ts cache1 = - 1 \<and> last_known_update_ts cache1 = 0 \<and>
   cache_ts cache1 \<le> 12 \<and> 12 < first_known_update_ts cache1 \<and>
   GetIndexReader 2 12 table0 cache1 store1 =
     Inr (\<lparr>ir_column_index_readers = Some 11, ir_column2analyzer = Some 12,
           ir_session_pool = Some 14\<rparr>, cache1,
          store1\<lparr>memory_pools := [10, 14], next_ptr := 15\<rparr>)"
proof -
  have slow: "GetIndexReader 1 10 table0 cache0 store0 =
     Inr (\<lparr>ir_column_index_readers = Some 11, ir_column2analyzer = Some 12,
           ir_session_pool = Some 10\<rparr>, cache1, store1)"
    by (simp add: GetIndexReader_def GetIndexReader_index_def table0_def cache0_def store0_def
        cache1_def store1_def Let_def)
  have c0: "\<not> (cache_ts cache0 \<le> 10 \<and> 10 < first_known_update_ts cache0)"
    "last_known_update_ts cache0 \<le> 10"
    by (simp_all add: cache0_def)
  have c1: "cache_ts cache1 \<le> 12 \<and> 12 < first_known_update_ts cache1"
    by (simp add: cache1_def)
  from GetIndexReader_paths [of cache0 10 1 table0 store0
      "\<lparr>ir_column_index_readers = Some 11, ir_column2analyzer = Some 12,
           ir_session_pool = Some 10\<rparr>" cache1 store1] c0 slow
  have upd: "cache_column_readers cache1 = Some 11 \<and> column2analyzer cache1 = Some 12 \<and>
     first_known_update_ts cache1 = - 1 \<and> last_known_update_ts cache1 = 0"
    by simp
  from GetIndexReader_paths [of cache1 12 2 table0 store1
      "\<lparr>ir_column_index_readers = Some 11, ir_column2analyzer = Some 12,
           ir_session_pool = Some 10\<rparr>" cache1 store1] c1
  have fast: "GetIndexReader 2 12 table0 cache1 store1 =
     Inr (\<lparr>ir_column_index_readers = cache_column_readers cache1,
           ir_column2analyzer = column2analyzer cache1,
           ir_session_pool = Some (next_ptr store1)\<rparr>, cache1,
          store1\<lparr>memory_pools := memory_pools store1 @ [next_ptr store1],
                 next_ptr := next_ptr store1 + 1\<rparr>)"
    by blast
  have "next_ptr store1 = 14" "memory_pools store1 = [10]"
    by (simp_all add: store1_def)
  with fast upd have fast': "GetIndexReader 2 12 table0 cache1 store1 =
     Inr (\<lparr>ir_column_index_readers = Some 11, ir_column2analyzer = Some 12,
           ir_session_pool = Some 14\<rparr>, cache1,
          store1\<lparr>memory_pools := [10, 14], next_ptr := 15\<rparr>)"
    by simp
  from c0 c1 slow upd fast' show ?thesis by blast
qed

end
